theory Spec2Isabelle
  imports Main
begin

section \<open>JavaScript values that reach the client\<close>

text \<open>
  Values produced by \<^verbatim>\<open>JSON.parse\<close>. Numbers are kept as integers: the client only
  ever tests a number for truthiness. An object is an association list read with
  \<open>map_of\<close>; a missing property is \<open>None\<close> (JavaScript's \<^verbatim>\<open>undefined\<close>).
\<close>

datatype json =
    JNull
  | JBool bool
  | JNum int
  | JStr string
  | JArr "json list"
  | JObj "(string \<times> json) list"

text \<open>JavaScript truthiness, as used by \<^verbatim>\<open>a || b\<close>.\<close>

fun truthy :: "json option \<Rightarrow> bool" where
  "truthy None = False"
| "truthy (Some JNull) = False"
| "truthy (Some (JBool b)) = b"
| "truthy (Some (JNum n)) = (n \<noteq> 0)"
| "truthy (Some (JStr s)) = (s \<noteq> [])"
| "truthy (Some (JArr xs)) = True"
| "truthy (Some (JObj kvs)) = True"

text \<open>\<^verbatim>\<open>a || b\<close> where \<open>b\<close> is a defined value.\<close>

definition or_else :: "json option \<Rightarrow> json \<Rightarrow> json" where
  "or_else a b = (case a of None \<Rightarrow> b | Some v \<Rightarrow> if truthy (Some v) then v else b)"

text \<open>
  \<^verbatim>\<open>v.k\<close> for the property names the client reads (\<^verbatim>\<open>type\<close>, \<^verbatim>\<open>data\<close>, \<^verbatim>\<open>message\<close>):
  reading a property of \<^verbatim>\<open>undefined\<close> or \<^verbatim>\<open>null\<close> throws a \<^verbatim>\<open>TypeError\<close> (the result
  \<open>None\<close>); an object gives its entry; a number, a boolean, a string or an array has no
  property of these names and gives \<^verbatim>\<open>undefined\<close>.
\<close>

fun property :: "json option \<Rightarrow> string \<Rightarrow> json option option" where
  "property None k = None"
| "property (Some JNull) k = None"
| "property (Some (JObj kvs)) k = Some (map_of kvs k)"
| "property (Some (JBool b)) k = Some None"
| "property (Some (JNum n)) k = Some None"
| "property (Some (JStr s)) k = Some None"
| "property (Some (JArr xs)) k = Some None"

section \<open>The realtime channel (websocket.ts)\<close>

subsection \<open>Data\<close>

datatype ConnectionStatus = Connecting | Connected | Disconnected | Error

text \<open>
  \<^verbatim>\<open>event.data\<close> of a message event: either \<^verbatim>\<open>JSON.parse\<close> throws, or it yields a value.
  The cast to \<^verbatim>\<open>WebSocketMessage\<close> checks nothing, so the value can be any JSON value.
\<close>

datatype frame = Malformed | Parsed json

text \<open>
  A callback is a function of the caller. The model keeps its identity (a number) and
  what it does when called, as far as the client can notice: the calls it makes back into
  the client, and whether it then throws. The callbacks that such a call to \<^verbatim>\<open>connect\<close>
  hands over are taken to return without calling back themselves.
\<close>

datatype reentry =
    CallDisconnect
  | CallConnect string "nat option" "nat option" "nat option" "nat option"

record callback =
  callee :: nat
  does :: "reentry list"
  throws :: bool

record ExecutionWebSocketCallbacks =
  onStepComplete :: "callback option"
  onExecutionComplete :: "callback option"
  onError :: "callback option"
  onConnectionChange :: "callback option"

text \<open>Every invocation is recorded, with its argument, in the order made.\<close>

datatype callback_arg =
    Step "json option"
  | Result "json option"
  | ErrorMsg json
  | Status ConnectionStatus

type_synonym invocation = "nat \<times> callback_arg"

definition no_callbacks :: ExecutionWebSocketCallbacks where
  "no_callbacks = \<lparr>onStepComplete = None, onExecutionComplete = None,
                   onError = None, onConnectionChange = None\<rparr>"

text \<open>The browser's WebSocket object, as far as the client drives or observes it.\<close>

datatype ReadyState = CONNECTING | OPEN | CLOSING | CLOSED

record socket =
  url :: string
  readyState :: ReadyState
  close_calls :: "(nat \<times> string) list"

text \<open>
  The fields of \<^verbatim>\<open>ExecutionWebSocket\<close>, followed by the environment they act on: the
  sockets constructed so far (a handle is an index), the pending timers (handle and
  delay), the next timer handle, and the log of callback invocations.
\<close>

record ExecutionWebSocket =
  ws :: "nat option"
  executionId :: "string option"
  callbacks :: ExecutionWebSocketCallbacks
  reconnectAttempts :: nat
  reconnectTimeout :: "nat option"
  sockets :: "socket list"
  timers :: "(nat \<times> nat) list"
  timer_seq :: nat
  calls :: "invocation list"

text \<open>The field \<^verbatim>\<open>maxReconnectAttempts\<close> is initialised to 3 and never assigned.\<close>

definition maxReconnectAttempts :: nat where
  "maxReconnectAttempts = 3"

definition executionWebSocket :: ExecutionWebSocket where
  "executionWebSocket =
     \<lparr>ws = None, executionId = None, callbacks = no_callbacks, reconnectAttempts = 0,
      reconnectTimeout = None, sockets = [], timers = [], timer_seq = 1, calls = []\<rparr>"

text \<open>
  What the module imports from config.ts and from the browser: the configured
  \<^verbatim>\<open>WS_URL\<close>, and whether \<^verbatim>\<open>new WebSocket(url)\<close> accepts a URL or throws.
\<close>

record ws_env =
  WS_URL :: string
  accepts :: "string \<Rightarrow> bool"

definition EXECUTION_WS :: "string \<Rightarrow> string" where
  "EXECUTION_WS ident = ''/ws/execution/'' @ ident"

text \<open>
  A method of the client either returns or is cut short by an exception thrown by a
  callback or by a property read; what it did to the client up to that point stays done.
\<close>

datatype run_result = Normal ExecutionWebSocket | Abrupt ExecutionWebSocket

fun state_of :: "run_result \<Rightarrow> ExecutionWebSocket" where
  "state_of (Normal w) = w"
| "state_of (Abrupt w) = w"

text \<open>One statement after another: the second runs only if the first returned.\<close>

fun and_then :: "run_result \<Rightarrow> (ExecutionWebSocket \<Rightarrow> run_result) \<Rightarrow> run_result" where
  "and_then (Normal w) f = f w"
| "and_then (Abrupt w) f = Abrupt w"

subsection \<open>Operations\<close>

definition record_call :: "callback \<Rightarrow> callback_arg \<Rightarrow> ExecutionWebSocket \<Rightarrow> ExecutionWebSocket" where
  "record_call cb arg w = w\<lparr>calls := calls w @ [(callee cb, arg)]\<rparr>"

text \<open>Truthiness of \<^verbatim>\<open>this.executionId\<close>: null and the empty string are falsy.\<close>

definition has_id :: "string option \<Rightarrow> bool" where
  "has_id x = (case x of None \<Rightarrow> False | Some s \<Rightarrow> s \<noteq> [])"

text \<open>\<^verbatim>\<open>ws.close(code, reason)\<close>: a socket that is closing or closed stays as it is.\<close>

definition socket_close :: "nat \<Rightarrow> string \<Rightarrow> socket \<Rightarrow> socket" where
  "socket_close code reason s =
     s\<lparr>close_calls := close_calls s @ [(code, reason)],
       readyState := (if readyState s = CONNECTING \<or> readyState s = OPEN then CLOSING
                      else readyState s)\<rparr>"

text \<open>
  \<^verbatim>\<open>disconnect\<close>. A timer handle and a socket object are truthy (the handles \<^verbatim>\<open>setTimeout\<close>
  returns are positive), so the two tests are tests for \<^verbatim>\<open>null\<close>.
\<close>

definition disconnect :: "ExecutionWebSocket \<Rightarrow> ExecutionWebSocket" where
  "disconnect w =
     (let w1 = (case reconnectTimeout w of
                  None \<Rightarrow> w
                | Some t \<Rightarrow> w\<lparr>timers := filter (\<lambda>p. fst p \<noteq> t) (timers w), reconnectTimeout := None\<rparr>);
          w2 = (case ws w1 of
                  None \<Rightarrow> w1
                | Some s \<Rightarrow>
                    w1\<lparr>sockets := (if s < length (sockets w1)
                                    then (sockets w1)[s := socket_close 1000 ''Client disconnect'' (sockets w1 ! s)]
                                    else sockets w1),
                       ws := None\<rparr>)
      in w2\<lparr>executionId := None, callbacks := no_callbacks, reconnectAttempts := maxReconnectAttempts\<rparr>)"

text \<open>
  \<^verbatim>\<open>establishConnection\<close>, with the way a callback is called left open (\<open>call\<close>). The URL
  is computed before the first callback runs; the callbacks are read from the client
  each time one is called.
\<close>

definition establishConnection_with ::
  "(callback option \<Rightarrow> callback_arg \<Rightarrow> ExecutionWebSocket \<Rightarrow> run_result)
     \<Rightarrow> ws_env \<Rightarrow> ExecutionWebSocket \<Rightarrow> run_result" where
  "establishConnection_with call env w =
     (if \<not> has_id (executionId w) then Normal w
      else
        let wsUrl = WS_URL env @ EXECUTION_WS (the (executionId w))
        in and_then (call (onConnectionChange (callbacks w)) (Status Connecting) w)
             (\<lambda>w1. if accepts env wsUrl
                    then Normal
                      (w1\<lparr>ws := Some (length (sockets w1)),
                          sockets := sockets w1
                            @ [\<lparr>url = wsUrl, readyState = CONNECTING, close_calls = []\<rparr>]\<rparr>)
                    else and_then
                      (call (onConnectionChange (callbacks w1)) (Status Error) w1)
                      (\<lambda>w2. call (onError (callbacks w2))
                               (ErrorMsg (JStr ''Failed to establish WebSocket connection'')) w2)))"

text \<open>Calling a callback that only returns: \<^verbatim>\<open>this.callbacks.f?.(arg)\<close>.\<close>

definition notify :: "callback option \<Rightarrow> callback_arg \<Rightarrow> ExecutionWebSocket \<Rightarrow> run_result" where
  "notify f arg w = (case f of None \<Rightarrow> Normal w | Some cb \<Rightarrow> Normal (record_call cb arg w))"

definition plain :: "nat option \<Rightarrow> callback option" where
  "plain h = map_option (\<lambda>n. \<lparr>callee = n, does = [], throws = False\<rparr>) h"

text \<open>A call that a callback makes back into the client.\<close>

definition reenter :: "ws_env \<Rightarrow> reentry \<Rightarrow> ExecutionWebSocket \<Rightarrow> ExecutionWebSocket" where
  "reenter env r w =
     (case r of
        CallDisconnect \<Rightarrow> disconnect w
      | CallConnect ident a b c d \<Rightarrow>
          state_of (establishConnection_with notify env
            (w\<lparr>executionId := Some ident,
               callbacks := \<lparr>onStepComplete = plain a, onExecutionComplete = plain b,
                             onError = plain c, onConnectionChange = plain d\<rparr>,
               reconnectAttempts := 0\<rparr>)))"

text \<open>
  \<^verbatim>\<open>this.callbacks.f?.(arg)\<close> in general: the callback is entered, makes its calls back
  into the client, and returns or throws.
\<close>

definition invoke ::
  "ws_env \<Rightarrow> callback option \<Rightarrow> callback_arg \<Rightarrow> ExecutionWebSocket \<Rightarrow> run_result" where
  "invoke env f arg w =
     (case f of
        None \<Rightarrow> Normal w
      | Some cb \<Rightarrow>
          let w1 = foldl (\<lambda>v r. reenter env r v) (record_call cb arg w) (does cb)
          in if throws cb then Abrupt w1 else Normal w1)"

definition establishConnection :: "ws_env \<Rightarrow> ExecutionWebSocket \<Rightarrow> run_result" where
  "establishConnection env w = establishConnection_with (invoke env) env w"

definition connect ::
  "ws_env \<Rightarrow> string \<Rightarrow> ExecutionWebSocketCallbacks \<Rightarrow> ExecutionWebSocket \<Rightarrow> run_result" where
  "connect env ident cbs w =
     establishConnection env (w\<lparr>executionId := Some ident, callbacks := cbs, reconnectAttempts := 0\<rparr>)"

text \<open>
  \<^verbatim>\<open>handleMessage\<close>. Reading \<^verbatim>\<open>message.type\<close> throws when the message is \<^verbatim>\<open>null\<close>; only an
  object can carry one of the three tags; reading \<^verbatim>\<open>message.data.message\<close> throws when
  \<^verbatim>\<open>data\<close> is absent or \<^verbatim>\<open>null\<close>.
\<close>

definition handleMessage :: "ws_env \<Rightarrow> json \<Rightarrow> ExecutionWebSocket \<Rightarrow> run_result" where
  "handleMessage env message w =
     (case property (Some message) ''type'' of
        None \<Rightarrow> Abrupt w
      | Some ty \<Rightarrow>
          (case property (Some message) ''data'' of
             None \<Rightarrow> Abrupt w
           | Some payload \<Rightarrow>
               if ty = Some (JStr ''step_complete'') then
                 invoke env (onStepComplete (callbacks w)) (Step payload) w
               else if ty = Some (JStr ''execution_complete'') then
                 and_then (invoke env (onExecutionComplete (callbacks w)) (Result payload) w)
                   (\<lambda>w1. Normal (disconnect w1))
               else if ty = Some (JStr ''error'') then
                 (case property payload ''message'' of
                    None \<Rightarrow> Abrupt w
                  | Some msg \<Rightarrow>
                      invoke env (onError (callbacks w))
                        (ErrorMsg (or_else msg (JStr ''Unknown error''))) w)
               else Normal w))"

definition reconnect_delay :: "nat \<Rightarrow> nat" where
  "reconnect_delay n = min (1000 * 2 ^ n) 10000"

definition handleDisconnect :: "ws_env \<Rightarrow> ExecutionWebSocket \<Rightarrow> run_result" where
  "handleDisconnect env w =
     and_then (invoke env (onConnectionChange (callbacks w)) (Status Disconnected) w)
       (\<lambda>w1. if has_id (executionId w1) \<and> reconnectAttempts w1 < maxReconnectAttempts
              then
                let n = reconnectAttempts w1 + 1;
                    delay = reconnect_delay n;
                    t = timer_seq w1
                in Normal (w1\<lparr>reconnectAttempts := n, reconnectTimeout := Some t,
                              timers := timers w1 @ [(t, delay)], timer_seq := t + 1\<rparr>)
              else Normal w1)"

text \<open>
  The four handlers installed on every socket; they close over the client only. The
  message handler catches whatever parsing or routing throws and goes on.
\<close>

definition onopen :: "ws_env \<Rightarrow> ExecutionWebSocket \<Rightarrow> run_result" where
  "onopen env w =
     (let w1 = w\<lparr>reconnectAttempts := 0\<rparr>
      in invoke env (onConnectionChange (callbacks w1)) (Status Connected) w1)"

definition onmessage :: "ws_env \<Rightarrow> frame \<Rightarrow> ExecutionWebSocket \<Rightarrow> run_result" where
  "onmessage env fr w =
     (case fr of
        Malformed \<Rightarrow> Normal w
      | Parsed message \<Rightarrow> Normal (state_of (handleMessage env message w)))"

definition onclose :: "ws_env \<Rightarrow> ExecutionWebSocket \<Rightarrow> run_result" where
  "onclose env w = handleDisconnect env w"

definition onerror :: "ws_env \<Rightarrow> ExecutionWebSocket \<Rightarrow> run_result" where
  "onerror env w =
     and_then (invoke env (onConnectionChange (callbacks w)) (Status Error) w)
       (\<lambda>w1. invoke env (onError (callbacks w1))
                (ErrorMsg (JStr ''WebSocket connection error'')) w1)"

subsection \<open>The event loop\<close>

text \<open>
  Everything that can happen to a client: the two public calls, the events a socket
  fires, and a timer coming due. A socket fires \<^verbatim>\<open>open\<close> once, while connecting;
  delivers messages only while open; fires \<^verbatim>\<open>close\<close> once, after which it is silent.
  A timer fires once, if it has not been cleared. A close event carries the close code,
  which the client only writes to the console; console output is left out of the model.
  An exception that leaves a handler or a public call ends that call and nothing more.
\<close>

datatype event =
    Connect string ExecutionWebSocketCallbacks
  | Disconnect
  | SockOpen nat
  | SockMessage nat frame
  | SockError nat
  | SockClose nat nat
  | TimerFire nat

definition set_ready :: "nat \<Rightarrow> ReadyState \<Rightarrow> ExecutionWebSocket \<Rightarrow> ExecutionWebSocket" where
  "set_ready s r w = w\<lparr>sockets := (sockets w)[s := (sockets w ! s)\<lparr>readyState := r\<rparr>]\<rparr>"

definition ready :: "ExecutionWebSocket \<Rightarrow> nat \<Rightarrow> ReadyState option" where
  "ready w s = (if s < length (sockets w) then Some (readyState (sockets w ! s)) else None)"

fun step :: "ws_env \<Rightarrow> event \<Rightarrow> ExecutionWebSocket \<Rightarrow> ExecutionWebSocket" where
  "step env (Connect ident cbs) w = state_of (connect env ident cbs w)"
| "step env Disconnect w = disconnect w"
| "step env (SockOpen s) w =
     (if ready w s = Some CONNECTING then state_of (onopen env (set_ready s OPEN w)) else w)"
| "step env (SockMessage s fr) w =
     (if ready w s = Some OPEN then state_of (onmessage env fr w) else w)"
| "step env (SockError s) w =
     (if ready w s = Some CONNECTING \<or> ready w s = Some OPEN \<or> ready w s = Some CLOSING
      then state_of (onerror env w) else w)"
| "step env (SockClose s code) w =
     (if ready w s = Some CONNECTING \<or> ready w s = Some OPEN \<or> ready w s = Some CLOSING
      then state_of (onclose env (set_ready s CLOSED w)) else w)"
| "step env (TimerFire t) w =
     (if t \<in> fst ` set (timers w)
      then state_of (establishConnection env
                       (w\<lparr>timers := filter (\<lambda>p. fst p \<noteq> t) (timers w)\<rparr>))
      else w)"

fun run :: "ws_env \<Rightarrow> event list \<Rightarrow> ExecutionWebSocket \<Rightarrow> ExecutionWebSocket" where
  "run env [] w = w"
| "run env (e # es) w = run env es (step env e w)"

fun is_Connect :: "event \<Rightarrow> bool" where
  "is_Connect (Connect ident cbs) = True"
| "is_Connect e = False"

section \<open>The request client (client.ts)\<close>

subsection \<open>Data\<close>

definition TIMEOUT :: nat where
  "TIMEOUT = 30000"

record ApiClient =
  baseUrl :: string
  timeout :: nat

text \<open>The constructor; \<^verbatim>\<open>BASE_URL\<close> comes from the build environment.\<close>

definition apiClient :: "string \<Rightarrow> ApiClient" where
  "apiClient BASE_URL = \<lparr>baseUrl = BASE_URL, timeout = TIMEOUT\<rparr>"

text \<open>
  A value caught by \<^verbatim>\<open>catch (error)\<close> that is not an \<^verbatim>\<open>ApiRequestError\<close>: an
  \<^verbatim>\<open>Error\<close> instance with its name and message, or anything else.
\<close>

datatype thrown = ErrorObject string string | OtherValue

datatype ApiRequestError = ApiRequestError (message: string) (status: nat) (data: "json option")

text \<open>
  A response as the client reads it: status line, and what reading the body gives
  (the read fails, or yields the text) after \<open>body_time\<close> milliseconds.
\<close>

record response =
  http_status :: nat
  statusText :: string
  body :: "thrown + string"
  body_time :: nat

text \<open>
  The network's answer to one \<^verbatim>\<open>fetch\<close>: it settles \<open>settle_time\<close> milliseconds after
  the call, rejected with a thrown value or resolved with a response.
\<close>

record transport =
  settle_time :: nat
  fetch_result :: "thrown + response"

text \<open>
  The JavaScript runtime: \<^verbatim>\<open>JSON.parse\<close> (an error or a value); the string conversion
  that \<^verbatim>\<open>new Error(message)\<close> applies to a value that is not a string, which throws a
  \<^verbatim>\<open>TypeError\<close> for a value without a primitive form (an object whose own \<^verbatim>\<open>toString\<close>
  is not a function, say); and the message of the \<^verbatim>\<open>TypeError\<close> raised by reading a
  property of \<^verbatim>\<open>null\<close>.
\<close>

record runtime =
  JSON_parse :: "string \<Rightarrow> thrown + json"
  ToString :: "json \<Rightarrow> thrown + string"
  null_read_message :: string

datatype 'a completion = Returns 'a | ThrowsApi ApiRequestError | Throws thrown

text \<open>
  What a call leaves behind: how it settles (the \<^verbatim>\<open>ApiRequestError\<close> thrown, or the value
  returned), how often \<^verbatim>\<open>controller.abort()\<close> ran, and when it settled.
\<close>

record request_result =
  outcome :: "ApiRequestError + json"
  aborts :: nat
  finished_at :: nat

subsection \<open>Operations\<close>

definition ok :: "response \<Rightarrow> bool" where
  "ok r = (200 \<le> http_status r \<and> http_status r \<le> 299)"

text \<open>\<^verbatim>\<open>super(message)\<close>: a string is taken as it is, anything else is converted.\<close>

definition String_of :: "runtime \<Rightarrow> json \<Rightarrow> thrown + string" where
  "String_of rt v = (case v of JStr s \<Rightarrow> Inr s | _ \<Rightarrow> ToString rt v)"

text \<open>\<^verbatim>\<open>response.json().catch(() => ({error: 'Request failed', detail: response.statusText}))\<close>\<close>

definition error_payload :: "runtime \<Rightarrow> response \<Rightarrow> json" where
  "error_payload rt r =
     (let fallback = JObj [(''error'', JStr ''Request failed''), (''detail'', JStr (statusText r))]
      in case body r of
           Inl e \<Rightarrow> fallback
         | Inr text \<Rightarrow> (case JSON_parse rt text of Inl e \<Rightarrow> fallback | Inr v \<Rightarrow> v))"

text \<open>\<^verbatim>\<open>errorData.error\<close>: reading a property of \<^verbatim>\<open>null\<close> throws; a value without it gives undefined.\<close>

definition read_error :: "runtime \<Rightarrow> json \<Rightarrow> thrown + json option" where
  "read_error rt v =
     (case v of
        JNull \<Rightarrow> Inl (ErrorObject ''TypeError'' (null_read_message rt))
      | JObj kvs \<Rightarrow> Inr (map_of kvs ''error'')
      | _ \<Rightarrow> Inr None)"

text \<open>The \<^verbatim>\<open>try\<close> block from the point where \<^verbatim>\<open>fetch\<close> has resolved.\<close>

definition after_fetch :: "runtime \<Rightarrow> response \<Rightarrow> json completion" where
  "after_fetch rt r =
     (if \<not> ok r then
        (let errorData = error_payload rt r
         in case read_error rt errorData of
              Inl e \<Rightarrow> Throws e
            | Inr p \<Rightarrow>
                (case String_of rt (or_else p (JStr ''Request failed'')) of
                   Inl e \<Rightarrow> Throws e
                 | Inr msg \<Rightarrow>
                     ThrowsApi (ApiRequestError msg (http_status r) (Some errorData))))
      else
        (case body r of
           Inl e \<Rightarrow> Throws e
         | Inr text \<Rightarrow>
             if text = [] then Returns (JObj [])
             else (case JSON_parse rt text of Inl e \<Rightarrow> Throws e | Inr v \<Rightarrow> Returns v)))"

text \<open>The \<^verbatim>\<open>catch\<close> block.\<close>

definition catch_block :: "json completion \<Rightarrow> ApiRequestError + json" where
  "catch_block c =
     (case c of
        Returns v \<Rightarrow> Inr v
      | ThrowsApi e \<Rightarrow> Inl e
      | Throws (ErrorObject name msg) \<Rightarrow>
          if name = ''AbortError'' then Inl (ApiRequestError ''Request timeout'' 408 None)
          else Inl (ApiRequestError msg 0 None)
      | Throws OtherValue \<Rightarrow> Inl (ApiRequestError ''Network error'' 0 None))"

text \<open>What \<^verbatim>\<open>fetch\<close> rejects with once \<^verbatim>\<open>controller.abort()\<close> has run.\<close>

definition AbortError :: thrown where
  "AbortError = ErrorObject ''AbortError'' ''signal is aborted without reason''"

text \<open>
  \<^verbatim>\<open>request\<close>. The timer set before the call runs \<^verbatim>\<open>controller.abort()\<close> after
  \<open>timeout\<close> milliseconds unless \<^verbatim>\<open>fetch\<close> has settled by then, in which case it is
  cleared; reading the body happens after the timer is cleared. The endpoint and the
  options go to \<^verbatim>\<open>fetch\<close> as they are and play no part in how its answer is handled.
\<close>

definition request :: "runtime \<Rightarrow> ApiClient \<Rightarrow> transport \<Rightarrow> request_result" where
  "request rt c net =
     (if timeout c < settle_time net then
        \<lparr>outcome = catch_block (Throws AbortError), aborts = 1, finished_at = timeout c\<rparr>
      else
        (case fetch_result net of
           Inl e \<Rightarrow>
             \<lparr>outcome = catch_block (Throws e), aborts = 0, finished_at = settle_time net\<rparr>
         | Inr r \<Rightarrow>
             \<lparr>outcome = catch_block (after_fetch rt r), aborts = 0,
              finished_at = settle_time net + body_time r\<rparr>))"

text \<open>How long the network takes to answer a call in full: response and body.\<close>

definition call_duration :: "transport \<Rightarrow> nat" where
  "call_duration net =
     (case fetch_result net of
        Inl e \<Rightarrow> settle_time net
      | Inr r \<Rightarrow> settle_time net + body_time r)"

section \<open>Vocabulary of the properties\<close>

subsection \<open>Observers of the realtime channel\<close>


text \<open>The events a given socket fires.\<close>

fun on_socket :: "nat \<Rightarrow> event \<Rightarrow> bool" where
  "on_socket s (SockOpen s') = (s' = s)"
| "on_socket s (SockMessage s' fr) = (s' = s)"
| "on_socket s (SockError s') = (s' = s)"
| "on_socket s (SockClose s' code) = (s' = s)"
| "on_socket s e = False"

text \<open>
  How a callback behaves: it makes no call back into the client; it returns rather than
  throws. A callback that was not supplied does both.
\<close>

definition stays_out :: "callback option \<Rightarrow> bool" where
  "stays_out f = (case f of None \<Rightarrow> True | Some cb \<Rightarrow> does cb = [])"

definition returns :: "callback option \<Rightarrow> bool" where
  "returns f = (case f of None \<Rightarrow> True | Some cb \<Rightarrow> \<not> throws cb)"

text \<open>A callback set none of whose functions calls back into the client.\<close>

definition tame :: "ExecutionWebSocketCallbacks \<Rightarrow> bool" where
  "tame cbs = (stays_out (onStepComplete cbs) \<and> stays_out (onExecutionComplete cbs)
               \<and> stays_out (onError cbs) \<and> stays_out (onConnectionChange cbs))"

text \<open>The client after \<^verbatim>\<open>disconnect\<close>, as far as its handlers can tell.\<close>

definition quiet :: "ExecutionWebSocket \<Rightarrow> bool" where
  "quiet w = (executionId w = None \<and> callbacks w = no_callbacks)"


text \<open>Invocations of the completion callback, and notifications of a given status.\<close>

fun is_Result :: "invocation \<Rightarrow> bool" where
  "is_Result (h, Result d) = True"
| "is_Result (h, a) = False"

definition completions :: "invocation list \<Rightarrow> nat" where
  "completions cs = length (filter is_Result cs)"

definition count_status :: "ConnectionStatus \<Rightarrow> invocation list \<Rightarrow> nat" where
  "count_status st cs = length (filter (\<lambda>c. snd c = Status st) cs)"

text \<open>The functions a callback set holds.\<close>

definition handlers :: "ExecutionWebSocketCallbacks \<Rightarrow> nat set" where
  "handlers cbs =
     callee ` (set_option (onStepComplete cbs) \<union> set_option (onExecutionComplete cbs)
               \<union> set_option (onError cbs) \<union> set_option (onConnectionChange cbs))"

text \<open>A log that grows only by invocations of functions in \<open>H\<close>.\<close>

definition delivered_to :: "nat set \<Rightarrow> invocation list \<Rightarrow> invocation list \<Rightarrow> bool" where
  "delivered_to H cs cs' = (\<exists>added. cs' = cs @ added \<and> fst ` set added \<subseteq> H)"

text \<open>A socket on which \<^verbatim>\<open>close\<close> has been called or that has closed; a socket that has closed.\<close>

definition sock_shut :: "ExecutionWebSocket \<Rightarrow> nat \<Rightarrow> bool" where
  "sock_shut w s = (ready w s = Some CLOSING \<or> ready w s = Some CLOSED)"

definition sock_closed :: "ExecutionWebSocket \<Rightarrow> nat \<Rightarrow> bool" where
  "sock_closed w s = (ready w s = Some CLOSED)"

text \<open>A timer handle that was handed out earlier and is not pending.\<close>

definition cancelled :: "ExecutionWebSocket \<Rightarrow> nat \<Rightarrow> bool" where
  "cancelled w t = (t \<notin> fst ` set (timers w) \<and> t < timer_seq w)"

text \<open>
  How far a socket has come, and the order in which a later state of the environment
  stands to an earlier one: sockets are only added and only move forward, timer handles
  only grow, and no handle handed out before comes back.
\<close>

fun rank :: "ReadyState \<Rightarrow> nat" where
  "rank CONNECTING = 0"
| "rank OPEN = 1"
| "rank CLOSING = 2"
| "rank CLOSED = 3"

definition later :: "ExecutionWebSocket \<Rightarrow> ExecutionWebSocket \<Rightarrow> bool" where
  "later w w' =
     (length (sockets w) \<le> length (sockets w')
      \<and> (\<forall>s < length (sockets w).
            rank (readyState (sockets w ! s)) \<le> rank (readyState (sockets w' ! s)))
      \<and> timer_seq w \<le> timer_seq w'
      \<and> (\<forall>t < timer_seq w. t \<in> fst ` set (timers w') \<longrightarrow> t \<in> fst ` set (timers w)))"

subsection \<open>Observers of the request client\<close>

definition thrown_name :: "thrown \<Rightarrow> string option" where
  "thrown_name e = (case e of ErrorObject name msg \<Rightarrow> Some name | OtherValue \<Rightarrow> None)"

text \<open>\<^verbatim>\<open>error instanceof Error ? error.message : 'Network error'\<close>\<close>

definition thrown_message :: "thrown \<Rightarrow> string" where
  "thrown_message e = (case e of ErrorObject name msg \<Rightarrow> msg | OtherValue \<Rightarrow> ''Network error'')"

text \<open>\<^verbatim>\<open>response.json()\<close> rejects: the body cannot be read, or it is not JSON.\<close>

definition unparsable :: "runtime \<Rightarrow> response \<Rightarrow> bool" where
  "unparsable rt r = (case body r of Inl e \<Rightarrow> True | Inr text \<Rightarrow> isl (JSON_parse rt text))"

subsection \<open>Concrete inputs\<close>

definition example_env :: ws_env where
  "example_env = \<lparr>WS_URL = ''ws://localhost:8000'', accepts = (\<lambda>u. True)\<rparr>"

definition callbacks_A :: ExecutionWebSocketCallbacks where
  "callbacks_A = \<lparr>onStepComplete = plain (Some 1), onExecutionComplete = plain (Some 2),
                  onError = plain (Some 3), onConnectionChange = plain (Some 4)\<rparr>"

definition callbacks_B :: ExecutionWebSocketCallbacks where
  "callbacks_B = \<lparr>onStepComplete = plain (Some 11), onExecutionComplete = plain (Some 12),
                  onError = plain (Some 13), onConnectionChange = plain (Some 14)\<rparr>"

text \<open>As \<open>callbacks_A\<close>, with a completion callback that throws.\<close>

definition callbacks_T :: ExecutionWebSocketCallbacks where
  "callbacks_T = \<lparr>onStepComplete = plain (Some 1),
                  onExecutionComplete = Some \<lparr>callee = 2, does = [], throws = True\<rparr>,
                  onError = plain (Some 3), onConnectionChange = plain (Some 4)\<rparr>"

text \<open>
  As \<open>callbacks_A\<close>, with a completion callback that subscribes to the next execution
  before it returns.
\<close>

definition callbacks_R :: ExecutionWebSocketCallbacks where
  "callbacks_R = \<lparr>onStepComplete = plain (Some 1),
                  onExecutionComplete =
                    Some \<lparr>callee = 2,
                          does = [CallConnect ''exec-43'' (Some 21) (Some 22) (Some 23) (Some 24)],
                          throws = False\<rparr>,
                  onError = plain (Some 3), onConnectionChange = plain (Some 4)\<rparr>"

definition step_data :: json where
  "step_data = JObj [(''step_number'', JNum 1), (''action'', JStr ''tap'')]"

definition step_frame :: json where
  "step_frame = JObj [(''type'', JStr ''step_complete''), (''execution_id'', JStr ''A''),
                      (''data'', step_data)]"

definition result_data :: json where
  "result_data = JObj [(''execution_id'', JStr ''exec-42''), (''status'', JStr ''PASS'')]"

definition complete_frame :: json where
  "complete_frame = JObj [(''type'', JStr ''execution_complete''),
                          (''execution_id'', JStr ''exec-42''), (''data'', result_data)]"

definition error_frame :: json where
  "error_frame = JObj [(''type'', JStr ''error''), (''execution_id'', JStr ''exec-42''),
                       (''data'', JObj [(''message'', JStr ''device lost'')])]"

text \<open>Error frames whose payload has no message, and that have no payload at all.\<close>

definition bare_error_frame :: json where
  "bare_error_frame = JObj [(''type'', JStr ''error''), (''execution_id'', JStr ''exec-42''),
                            (''data'', JObj [])]"

definition dataless_error_frame :: json where
  "dataless_error_frame = JObj [(''type'', JStr ''error''), (''execution_id'', JStr ''exec-42'')]"

text \<open>A second \<^verbatim>\<open>connect\<close> while the first subscription's socket is open.\<close>

definition two_connects :: "event list" where
  "two_connects = [Connect ''A'' callbacks_A, SockOpen 0, Connect ''B'' callbacks_B]"



text \<open>
  Two calls of \<^verbatim>\<open>connect\<close>; the socket of the first then drops, which leaves a reconnect
  timer pending while the socket of the second is open.
\<close>

definition drop_beside_open :: "event list" where
  "drop_beside_open =
     [Connect ''exec-42'' callbacks_A, SockOpen 0, Connect ''exec-42'' callbacks_A, SockOpen 1,
      SockClose 0 1006]"


definition open_world :: ExecutionWebSocket where
  "open_world = run example_env [Connect ''exec-42'' callbacks_A, SockOpen 0] executionWebSocket"

definition throwing_world :: ExecutionWebSocket where
  "throwing_world = run example_env [Connect ''exec-42'' callbacks_T, SockOpen 0] executionWebSocket"

definition reentrant_world :: ExecutionWebSocket where
  "reentrant_world = run example_env [Connect ''exec-42'' callbacks_R, SockOpen 0] executionWebSocket"

definition pending_world :: ExecutionWebSocket where
  "pending_world = run example_env drop_beside_open executionWebSocket"


text \<open>
  A runtime for the examples: \<^verbatim>\<open>JSON.parse\<close> on the body texts they use, and the string
  conversion of JSON values. An object converts to \<^verbatim>\<open>[object Object]\<close> unless it has a
  \<^verbatim>\<open>toString\<close> entry of its own: no JSON value is a function, so the conversion then
  falls through to \<^verbatim>\<open>valueOf\<close>, which yields no primitive, and throws. An array joins its
  elements with commas, \<^verbatim>\<open>null\<close> elements as empty strings.
\<close>

fun digits :: "nat \<Rightarrow> string" where
  "digits n = (if n < 10 then [char_of (48 + n)]
               else digits (n div 10) @ [char_of (48 + n mod 10)])"

fun to_string :: "json \<Rightarrow> thrown + string"
  and join :: "json list \<Rightarrow> thrown + string" where
  "to_string JNull = Inr ''null''"
| "to_string (JBool b) = Inr (if b then ''true'' else ''false'')"
| "to_string (JNum n) = Inr (if n < 0 then CHR ''-'' # digits (nat (- n)) else digits (nat n))"
| "to_string (JStr s) = Inr s"
| "to_string (JArr xs) = join xs"
| "to_string (JObj kvs) =
     (if map_of kvs ''toString'' = None then Inr ''[object Object]''
      else Inl (ErrorObject ''TypeError'' ''Cannot convert object to primitive value''))"
| "join [] = Inr []"
| "join (x # xs) =
     (case (if x = JNull then Inr [] else to_string x) of
        Inl e \<Rightarrow> Inl e
      | Inr s \<Rightarrow>
          (case join xs of
             Inl e \<Rightarrow> Inl e
           | Inr t \<Rightarrow> Inr (if xs = [] then s else s @ '','' @ t)))"

definition example_runtime :: runtime where
  "example_runtime =
     \<lparr>JSON_parse = (\<lambda>s. if s = ''{}'' then Inr (JObj [])
                         else if s = ''null'' then Inr JNull
                         else if s = ''{\"error\":\"Not found\"}''
                           then Inr (JObj [(''error'', JStr ''Not found'')])
                         else if s = ''{\"error\":{\"toString\":null}}''
                           then Inr (JObj [(''error'', JObj [(''toString'', JNull)])])
                         else Inl (ErrorObject ''SyntaxError'' ''Unexpected token'')),
      ToString = to_string,
      null_read_message = ''Cannot read properties of null''\<rparr>"

definition slow_body :: transport where
  "slow_body =
     \<lparr>settle_time = 100,
      fetch_result = Inr \<lparr>http_status = 200, statusText = ''OK'', body = Inr ''{}'',
                          body_time = 60000\<rparr>\<rparr>"

definition never_answered :: transport where
  "never_answered =
     \<lparr>settle_time = 45000,
      fetch_result = Inr \<lparr>http_status = 200, statusText = ''OK'', body = Inr ''{}'',
                          body_time = 1\<rparr>\<rparr>"

definition html_500 :: response where
  "html_500 = \<lparr>http_status = 500, statusText = ''Internal Server Error'',
               body = Inr ''<html>Server Error</html>'', body_time = 3\<rparr>"

definition server_error :: transport where
  "server_error = \<lparr>settle_time = 120, fetch_result = Inr html_500\<rparr>"

text \<open>Error responses whose body is JSON: \<^verbatim>\<open>null\<close>, an error object, an odd error field.\<close>

definition null_500 :: response where
  "null_500 = \<lparr>http_status = 500, statusText = ''Internal Server Error'',
               body = Inr ''null'', body_time = 3\<rparr>"

definition null_error :: transport where
  "null_error = \<lparr>settle_time = 120, fetch_result = Inr null_500\<rparr>"

definition not_found_404 :: response where
  "not_found_404 = \<lparr>http_status = 404, statusText = ''Not Found'',
                    body = Inr ''{\"error\":\"Not found\"}'', body_time = 2\<rparr>"

definition not_found :: transport where
  "not_found = \<lparr>settle_time = 40, fetch_result = Inr not_found_404\<rparr>"

definition odd_422 :: response where
  "odd_422 = \<lparr>http_status = 422, statusText = ''Unprocessable Entity'',
              body = Inr ''{\"error\":{\"toString\":null}}'', body_time = 2\<rparr>"

definition odd_error :: transport where
  "odd_error = \<lparr>settle_time = 40, fetch_result = Inr odd_422\<rparr>"

definition foreign_abort :: transport where
  "foreign_abort =
     \<lparr>settle_time = 5, fetch_result = Inl (ErrorObject ''AbortError'' ''The operation was aborted.'')\<rparr>"

definition connection_refused :: transport where
  "connection_refused =
     \<lparr>settle_time = 7, fetch_result = Inl (ErrorObject ''TypeError'' ''Failed to fetch'')\<rparr>"

definition no_content :: response where
  "no_content = \<lparr>http_status = 204, statusText = ''No Content'', body = Inr [], body_time = 0\<rparr>"

definition deleted :: transport where
  "deleted = \<lparr>settle_time = 30, fetch_result = Inr no_content\<rparr>"

section \<open>Basic facts about the operations\<close>

lemma record_call_fields [simp]:
  "ws (record_call cb a w) = ws w"
  "executionId (record_call cb a w) = executionId w"
  "callbacks (record_call cb a w) = callbacks w"
  "reconnectAttempts (record_call cb a w) = reconnectAttempts w"
  "reconnectTimeout (record_call cb a w) = reconnectTimeout w"
  "sockets (record_call cb a w) = sockets w"
  "timers (record_call cb a w) = timers w"
  "timer_seq (record_call cb a w) = timer_seq w"
  "calls (record_call cb a w) = calls w @ [(callee cb, a)]"
  by (simp_all add: record_call_def)

lemma invoke_None [simp]: "invoke env None a w = Normal w"
  by (simp add: invoke_def)

lemma notify_None [simp]: "notify None a w = Normal w"
  by (simp add: notify_def)

text \<open>A callback that stays out of the client is recorded and returns or throws.\<close>

lemma invoke_stays_out:
  "stays_out f \<Longrightarrow>
   invoke env f a w =
     (case f of
        None \<Rightarrow> Normal w
      | Some cb \<Rightarrow> if throws cb then Abrupt (record_call cb a w) else Normal (record_call cb a w))"
  by (simp add: invoke_def stays_out_def Let_def split: option.splits)

lemma invoke_plain [simp]:
  "invoke env (plain h) a w = notify (plain h) a w"
  by (cases h) (simp_all add: invoke_def notify_def plain_def)

lemma no_callbacks_fields [simp]:
  "onStepComplete no_callbacks = None"
  "onExecutionComplete no_callbacks = None"
  "onError no_callbacks = None"
  "onConnectionChange no_callbacks = None"
  by (simp_all add: no_callbacks_def)

lemma disconnect_fields [simp]:
  "executionId (disconnect w) = None"
  "callbacks (disconnect w) = no_callbacks"
  "reconnectAttempts (disconnect w) = maxReconnectAttempts"
  "ws (disconnect w) = None"
  "reconnectTimeout (disconnect w) = None"
  "calls (disconnect w) = calls w"
  "timer_seq (disconnect w) = timer_seq w"
  "length (sockets (disconnect w)) = length (sockets w)"
  by (simp_all add: disconnect_def Let_def split: option.splits)

lemma disconnect_timers:
  "timers (disconnect w) =
     (case reconnectTimeout w of
        None \<Rightarrow> timers w
      | Some t \<Rightarrow> filter (\<lambda>p. fst p \<noteq> t) (timers w))"
  by (simp add: disconnect_def Let_def split: option.splits)

lemma set_ready_fields [simp]:
  "calls (set_ready s r w) = calls w"
  "callbacks (set_ready s r w) = callbacks w"
  "executionId (set_ready s r w) = executionId w"
  "reconnectAttempts (set_ready s r w) = reconnectAttempts w"
  "timers (set_ready s r w) = timers w"
  "timer_seq (set_ready s r w) = timer_seq w"
  "length (sockets (set_ready s r w)) = length (sockets w)"
  by (simp_all add: set_ready_def)

lemma completions_simps [simp]:
  "completions (cs @ ds) = completions cs + completions ds"
  "completions [] = 0"
  "completions ((h, Result d) # cs) = Suc (completions cs)"
  "completions ((h, Step d) # cs) = completions cs"
  "completions ((h, ErrorMsg j) # cs) = completions cs"
  "completions ((h, Status st) # cs) = completions cs"
  by (simp_all add: completions_def)

lemma count_status_simps [simp]:
  "count_status st (cs @ ds) = count_status st cs + count_status st ds"
  "count_status st [] = 0"
  "count_status st ((h, Status st') # cs) = (if st' = st then 1 else 0) + count_status st cs"
  "count_status st ((h, Step d) # cs) = count_status st cs"
  "count_status st ((h, Result d) # cs) = count_status st cs"
  "count_status st ((h, ErrorMsg j) # cs) = count_status st cs"
  by (simp_all add: count_status_def)

text \<open>Unfolding everything evaluates the client on a concrete sequence of events.\<close>

lemmas channel_defs =
  connect_def disconnect_def establishConnection_def establishConnection_with_def
  handleMessage_def handleDisconnect_def onopen_def onmessage_def onclose_def onerror_def
  invoke_def notify_def reenter_def plain_def record_call_def has_id_def set_ready_def
  ready_def socket_close_def reconnect_delay_def maxReconnectAttempts_def
  executionWebSocket_def no_callbacks_def EXECUTION_WS_def or_else_def Let_def example_env_def
  callbacks_A_def callbacks_B_def callbacks_T_def callbacks_R_def

lemmas client_defs =
  request_def catch_block_def after_fetch_def error_payload_def read_error_def ok_def
  String_of_def or_else_def AbortError_def apiClient_def TIMEOUT_def call_duration_def
  example_runtime_def Let_def

section \<open>After \<^verbatim>\<open>disconnect\<close> the client is inert\<close>

text \<open>
  With no execution id and no callbacks, every event except a new \<^verbatim>\<open>connect\<close> leaves the
  log alone, constructs no socket and starts no timer.
\<close>

lemma quiet_handleMessage:
  assumes "quiet w"
  shows "quiet (state_of (handleMessage env m w))
         \<and> calls (state_of (handleMessage env m w)) = calls w
         \<and> length (sockets (state_of (handleMessage env m w))) = length (sockets w)
         \<and> timer_seq (state_of (handleMessage env m w)) = timer_seq w
         \<and> set (timers (state_of (handleMessage env m w))) \<subseteq> set (timers w)"
  using assms
  by (auto simp: quiet_def handleMessage_def disconnect_timers split: option.splits)

lemma quiet_step:
  assumes "quiet w" and "\<not> is_Connect e"
  shows "quiet (step env e w) \<and> calls (step env e w) = calls w
         \<and> length (sockets (step env e w)) = length (sockets w)
         \<and> timer_seq (step env e w) = timer_seq w
         \<and> set (timers (step env e w)) \<subseteq> set (timers w)"
proof (cases e)
  case (Connect ident cbs)
  with assms show ?thesis by simp
next
  case Disconnect
  with assms show ?thesis by (auto simp: quiet_def disconnect_timers split: option.splits)
next
  case (SockOpen s)
  with assms show ?thesis by (auto simp: quiet_def onopen_def Let_def)
next
  case (SockMessage s fr)
  with assms quiet_handleMessage [OF assms(1), of env] show ?thesis
    by (cases fr) (auto simp: onmessage_def)
next
  case (SockError s)
  with assms show ?thesis by (auto simp: quiet_def onerror_def)
next
  case (SockClose s code)
  with assms show ?thesis
    by (auto simp: quiet_def onclose_def handleDisconnect_def has_id_def)
next
  case (TimerFire t)
  with assms show ?thesis
    by (auto simp: quiet_def establishConnection_def establishConnection_with_def has_id_def)
qed

lemma quiet_run:
  assumes "quiet w" and "\<not> list_ex is_Connect es"
  shows "quiet (run env es w) \<and> calls (run env es w) = calls w
         \<and> length (sockets (run env es w)) = length (sockets w)
         \<and> timer_seq (run env es w) = timer_seq w
         \<and> set (timers (run env es w)) \<subseteq> set (timers w)"
  using assms
proof (induction es arbitrary: w)
  case Nil
  then show ?case by simp
next
  case (Cons e es)
  from Cons.prems have q: "quiet w" and ne: "\<not> is_Connect e"
    and nes: "\<not> list_ex is_Connect es"
    by simp_all
  note s = quiet_step [OF q ne, of env]
  from s have "quiet (step env e w)" by simp
  note r = Cons.IH [OF this nes]
  from s r show ?case by auto
qed

section \<open>Sockets only move towards closed, timer handles are never reused\<close>

lemma later_refl [simp]: "later w w"
  by (simp add: later_def)

lemma later_trans: "later w w' \<Longrightarrow> later w' w'' \<Longrightarrow> later w w''"
  unfolding later_def
  by (metis (no_types, lifting) le_trans less_le_trans)

lemma later_same:
  "sockets w' = sockets w \<Longrightarrow> timers w' = timers w \<Longrightarrow> timer_seq w' = timer_seq w
   \<Longrightarrow> later w w'"
  by (simp add: later_def)

lemma later_record_call [simp]: "later w (record_call cb a w)"
  by (simp add: later_same)

lemma rank_socket_close: "rank (readyState s) \<le> rank (readyState (socket_close code reason s))"
  by (cases "readyState s") (simp_all add: socket_close_def)

lemma later_disconnect [simp]: "later w (disconnect w)"
  by (auto simp: later_def disconnect_def Let_def nth_list_update rank_socket_close
        split: option.splits)

lemma later_and_then:
  assumes "later w (state_of r)" and "\<And>v. later v (state_of (f v))"
  shows "later w (state_of (and_then r f))"
proof (cases r)
  case (Normal v)
  with assms(1) assms(2) [of v] show ?thesis by (auto intro: later_trans)
next
  case (Abrupt v)
  with assms(1) show ?thesis by simp
qed

lemma later_new_socket:
  "later w (w\<lparr>ws := x, sockets := sockets w @ [sock]\<rparr>)"
  by (simp add: later_def nth_append)

lemma later_establishConnection_with:
  assumes "\<And>f a v. later v (state_of (call f a v))"
  shows "later w (state_of (establishConnection_with call env w))"
proof (cases "has_id (executionId w)")
  case False
  then show ?thesis by (simp add: establishConnection_with_def)
next
  case True
  have inner: "\<And>v. later v (state_of
      (if accepts env (WS_URL env @ EXECUTION_WS (the (executionId w)))
       then Normal (v\<lparr>ws := Some (length (sockets v)),
                      sockets := sockets v
                        @ [\<lparr>url = WS_URL env @ EXECUTION_WS (the (executionId w)),
                            readyState = CONNECTING, close_calls = []\<rparr>]\<rparr>)
       else and_then (call (onConnectionChange (callbacks v)) (Status Error) v)
              (\<lambda>w2. call (onError (callbacks w2))
                       (ErrorMsg (JStr ''Failed to establish WebSocket connection'')) w2)))"
    by (auto intro!: later_and_then assms later_new_socket)
  from True show ?thesis
    unfolding establishConnection_with_def Let_def
    by (simp only: if_False not_True_eq_False simp_thms)
       (rule later_and_then [OF assms inner])
qed

lemma later_notify [simp]: "later w (state_of (notify f a w))"
  by (cases f) (simp_all add: notify_def)

lemma later_reenter [simp]: "later w (reenter env r w)"
proof (cases r)
  case CallDisconnect
  then show ?thesis by (simp add: reenter_def)
next
  case (CallConnect ident a b c d)
  let ?w0 = "w\<lparr>executionId := Some ident,
               callbacks := \<lparr>onStepComplete = plain a, onExecutionComplete = plain b,
                             onError = plain c, onConnectionChange = plain d\<rparr>,
               reconnectAttempts := 0\<rparr>"
  have "later w ?w0" by (simp add: later_same)
  moreover have "later ?w0 (state_of (establishConnection_with notify env ?w0))"
    by (rule later_establishConnection_with) simp
  ultimately show ?thesis
    using CallConnect by (auto simp: reenter_def intro: later_trans)
qed

lemma later_reenter_all: "later w (foldl (\<lambda>v r. reenter env r v) w rs)"
proof (induction rs arbitrary: w)
  case Nil
  then show ?case by simp
next
  case (Cons r rs)
  from later_trans [OF later_reenter [of w env r] Cons.IH [of "reenter env r w"]]
  show ?case by simp
qed

lemma later_invoke [simp]: "later w (state_of (invoke env f a w))"
proof (cases f)
  case None
  then show ?thesis by simp
next
  case (Some cb)
  from later_trans [OF later_record_call [of w cb a]
      later_reenter_all [of "record_call cb a w" env "does cb"]]
  show ?thesis using Some by (simp add: invoke_def Let_def)
qed

lemma later_establishConnection [simp]: "later w (state_of (establishConnection env w))"
  unfolding establishConnection_def by (rule later_establishConnection_with) simp

lemma later_connect [simp]: "later w (state_of (connect env ident cbs w))"
proof -
  let ?w0 = "w\<lparr>executionId := Some ident, callbacks := cbs, reconnectAttempts := 0\<rparr>"
  have "later w ?w0" by (simp add: later_same)
  from later_trans [OF this later_establishConnection [of ?w0 env]]
  show ?thesis by (simp add: connect_def)
qed

lemma later_then_disconnect:
  "later w (state_of (and_then (invoke env f a w) (\<lambda>w1. Normal (disconnect w1))))"
  by (rule later_and_then) simp_all

lemma later_handleMessage [simp]: "later w (state_of (handleMessage env m w))"
  by (simp add: handleMessage_def later_then_disconnect split: option.splits)

lemma later_handleDisconnect [simp]: "later w (state_of (handleDisconnect env w))"
  unfolding handleDisconnect_def
proof (rule later_and_then)
  show "later w (state_of (invoke env (onConnectionChange (callbacks w)) (Status Disconnected) w))"
    by simp
next
  fix v
  show "later v (state_of
      (if has_id (executionId v) \<and> reconnectAttempts v < maxReconnectAttempts
       then let n = reconnectAttempts v + 1; delay = reconnect_delay n; t = timer_seq v
            in Normal (v\<lparr>reconnectAttempts := n, reconnectTimeout := Some t,
                          timers := timers v @ [(t, delay)], timer_seq := t + 1\<rparr>)
       else Normal v))"
    by (auto simp: Let_def later_def)
qed

lemma later_onopen: "later w (state_of (onopen env w))"
proof -
  have "later w (w\<lparr>reconnectAttempts := 0\<rparr>)" by (simp add: later_same)
  from later_trans [OF this later_invoke] show ?thesis by (simp add: onopen_def Let_def)
qed

lemma later_onerror [simp]: "later w (state_of (onerror env w))"
  unfolding onerror_def by (rule later_and_then) simp_all

lemma later_set_ready:
  assumes "ready w s = Some r0" and "rank r0 \<le> rank r"
  shows "later w (set_ready s r w)"
  using assms
  by (auto simp: later_def set_ready_def ready_def nth_list_update split: if_splits)

lemma later_fire: "later w (w\<lparr>timers := filter P (timers w)\<rparr>)"
  by (auto simp: later_def)

lemma later_step: "later w (step env e w)"
proof (cases e)
  case (Connect ident cbs)
  then show ?thesis by simp
next
  case Disconnect
  then show ?thesis by simp
next
  case (SockOpen s)
  show ?thesis
  proof (cases "ready w s = Some CONNECTING")
    case True
    then have "later w (set_ready s OPEN w)" by (rule later_set_ready) simp
    from later_trans [OF this later_onopen] True SockOpen show ?thesis by simp
  next
    case False
    with SockOpen show ?thesis by simp
  qed
next
  case (SockMessage s fr)
  then show ?thesis by (cases fr) (simp_all add: onmessage_def)
next
  case (SockError s)
  then show ?thesis by simp
next
  case (SockClose s code)
  show ?thesis
  proof (cases "ready w s")
    case None
    with SockClose show ?thesis by simp
  next
    case (Some r0)
    then have "later w (set_ready s CLOSED w)"
      by (rule later_set_ready) (cases r0, simp_all)
    from later_trans [OF this later_handleDisconnect] Some SockClose show ?thesis
      by (simp add: onclose_def)
  qed
next
  case (TimerFire t)
  from later_trans [OF later_fire later_establishConnection] TimerFire show ?thesis by simp
qed

lemma later_run: "later w (run env es w)"
proof (induction es arbitrary: w)
  case Nil
  then show ?case by simp
next
  case (Cons e es)
  from later_trans [OF later_step Cons.IH] show ?case by simp
qed

lemma rank_shut: "(2 \<le> rank r) = (r = CLOSING \<or> r = CLOSED)"
  by (cases r) simp_all

lemma rank_closed: "(3 \<le> rank r) = (r = CLOSED)"
  by (cases r) simp_all

lemma sock_shut_later:
  assumes "sock_shut w s" and "later w w'"
  shows "sock_shut w' s"
proof -
  from assms(1) have len: "s < length (sockets w)" and r: "2 \<le> rank (readyState (sockets w ! s))"
    by (auto simp: sock_shut_def ready_def split: if_splits)
  with assms(2) have "s < length (sockets w')" "2 \<le> rank (readyState (sockets w' ! s))"
    by (auto simp: later_def dest: le_trans)
  then show ?thesis by (simp add: sock_shut_def ready_def rank_shut)
qed

lemma sock_closed_later:
  assumes "sock_closed w s" and "later w w'"
  shows "sock_closed w' s"
proof -
  from assms(1) have len: "s < length (sockets w)" and r: "3 \<le> rank (readyState (sockets w ! s))"
    by (auto simp: sock_closed_def ready_def split: if_splits)
  with assms(2) have "s < length (sockets w')" "3 \<le> rank (readyState (sockets w' ! s))"
    by (auto simp: later_def dest: le_trans)
  then show ?thesis by (simp add: sock_closed_def ready_def rank_closed)
qed

lemma cancelled_later: "cancelled w t \<Longrightarrow> later w w' \<Longrightarrow> cancelled w' t"
  by (auto simp: cancelled_def later_def)

lemma sock_shut_no_message: "sock_shut w s \<Longrightarrow> step env (SockMessage s fr) w = w"
  by (auto simp: sock_shut_def)

lemma sock_closed_silent: "sock_closed w s \<Longrightarrow> on_socket s e \<Longrightarrow> step env e w = w"
  by (cases e) (simp_all add: sock_closed_def)

lemma cancelled_silent: "cancelled w t \<Longrightarrow> step env (TimerFire t) w = w"
  by (simp add: cancelled_def)


section \<open>Callbacks that stay out of the client\<close>

lemma tame_no_callbacks [simp]: "tame no_callbacks"
  by (simp add: tame_def stays_out_def)

lemma handlers_no_callbacks [simp]: "handlers no_callbacks = {}"
  by (simp add: handlers_def)

lemma delivered_to_refl [simp]: "delivered_to H cs cs"
  by (simp add: delivered_to_def)

lemma delivered_to_trans:
  "delivered_to H cs cs' \<Longrightarrow> delivered_to H cs' cs'' \<Longrightarrow> delivered_to H cs cs''"
  unfolding delivered_to_def by force

lemma delivered_to_append [simp]: "delivered_to H cs (cs @ xs) = (fst ` set xs \<subseteq> H)"
  by (auto simp: delivered_to_def)

lemma delivered_to_mono: "delivered_to H cs cs' \<Longrightarrow> H \<subseteq> H' \<Longrightarrow> delivered_to H' cs cs'"
  by (auto simp: delivered_to_def)

lemma establishConnection_delivers:
  assumes "tame (callbacks w)"
  shows "delivered_to (handlers (callbacks w)) (calls w) (calls (state_of (establishConnection env w)))
         \<and> callbacks (state_of (establishConnection env w)) = callbacks w"
  using assms
  by (auto simp: establishConnection_def establishConnection_with_def Let_def invoke_stays_out
        tame_def handlers_def split: option.splits)

lemma handleMessage_delivers:
  assumes "tame (callbacks w)"
  shows "delivered_to (handlers (callbacks w)) (calls w) (calls (state_of (handleMessage env m w)))
         \<and> (callbacks (state_of (handleMessage env m w)) = callbacks w
            \<or> callbacks (state_of (handleMessage env m w)) = no_callbacks)"
  using assms
  by (auto simp: handleMessage_def invoke_stays_out tame_def handlers_def split: option.splits)

lemma handleDisconnect_delivers:
  assumes "tame (callbacks w)"
  shows "delivered_to (handlers (callbacks w)) (calls w) (calls (state_of (handleDisconnect env w)))
         \<and> callbacks (state_of (handleDisconnect env w)) = callbacks w"
  using assms
  by (auto simp: handleDisconnect_def Let_def invoke_stays_out tame_def handlers_def
        split: option.splits)

lemma onopen_delivers:
  assumes "tame (callbacks w)"
  shows "delivered_to (handlers (callbacks w)) (calls w) (calls (state_of (onopen env w)))
         \<and> callbacks (state_of (onopen env w)) = callbacks w"
  using assms
  by (auto simp: onopen_def Let_def invoke_stays_out tame_def handlers_def split: option.splits)

lemma onerror_delivers:
  assumes "tame (callbacks w)"
  shows "delivered_to (handlers (callbacks w)) (calls w) (calls (state_of (onerror env w)))
         \<and> callbacks (state_of (onerror env w)) = callbacks w"
  using assms
  by (auto simp: onerror_def invoke_stays_out tame_def handlers_def split: option.splits)

lemma step_delivers:
  assumes "tame (callbacks w)" and "\<not> is_Connect e"
  shows "delivered_to (handlers (callbacks w)) (calls w) (calls (step env e w))
         \<and> (callbacks (step env e w) = callbacks w \<or> callbacks (step env e w) = no_callbacks)"
proof (cases e)
  case (Connect ident cbs)
  with assms show ?thesis by simp
next
  case Disconnect
  then show ?thesis by simp
next
  case (SockOpen s)
  then show ?thesis
    using onopen_delivers [of "set_ready s OPEN w" env] assms(1) by simp
next
  case (SockMessage s fr)
  then show ?thesis
    using handleMessage_delivers [OF assms(1), of env]
    by (cases fr) (simp_all add: onmessage_def)
next
  case (SockError s)
  then show ?thesis
    using onerror_delivers [OF assms(1), of env] by simp
next
  case (SockClose s code)
  then show ?thesis
    using handleDisconnect_delivers [of "set_ready s CLOSED w" env] assms(1)
    by (simp add: onclose_def)
next
  case (TimerFire t)
  then show ?thesis
    using establishConnection_delivers
      [of "w\<lparr>timers := filter (\<lambda>p. fst p \<noteq> t) (timers w)\<rparr>" env] assms(1)
    by simp
qed

lemma run_delivers:
  assumes "tame (callbacks w)" and "\<not> list_ex is_Connect es" and "handlers (callbacks w) \<subseteq> H"
  shows "delivered_to H (calls w) (calls (run env es w))"
  using assms
proof (induction es arbitrary: w)
  case Nil
  then show ?case by simp
next
  case (Cons e es)
  from Cons.prems have ne: "\<not> is_Connect e" and nes: "\<not> list_ex is_Connect es"
    by simp_all
  note s = step_delivers [OF Cons.prems(1) ne, of env]
  from s Cons.prems(1) have t': "tame (callbacks (step env e w))" by auto
  from s Cons.prems(3) have H': "handlers (callbacks (step env e w)) \<subseteq> H" by auto
  from s Cons.prems(3) have d1: "delivered_to H (calls w) (calls (step env e w))"
    by (blast intro: delivered_to_mono)
  from delivered_to_trans [OF d1 Cons.IH [OF t' nes H']] show ?case by simp
qed


lemma state_of_if [simp]:
  "state_of (if b then x else y) = (if b then state_of x else state_of y)"
  by simp

section \<open>The completion callback\<close>

lemma handleMessage_completions:
  assumes "tame (callbacks w)" and "returns (onExecutionComplete (callbacks w))"
  shows "(completions (calls (state_of (handleMessage env m w))) = completions (calls w)
          \<and> callbacks (state_of (handleMessage env m w)) = callbacks w)
         \<or> (quiet (state_of (handleMessage env m w))
            \<and> completions (calls (state_of (handleMessage env m w))) \<le> completions (calls w) + 1)"
  using assms
  by (auto simp: handleMessage_def invoke_stays_out tame_def returns_def quiet_def
        split: option.splits if_splits)

lemma step_completions:
  assumes "tame (callbacks w)" and "returns (onExecutionComplete (callbacks w))"
    and "\<not> is_Connect e"
  shows "(completions (calls (step env e w)) = completions (calls w)
          \<and> callbacks (step env e w) = callbacks w)
         \<or> (quiet (step env e w)
            \<and> completions (calls (step env e w)) \<le> completions (calls w) + 1)"
proof (cases e)
  case (Connect ident cbs)
  with assms show ?thesis by simp
next
  case Disconnect
  then show ?thesis by (simp add: quiet_def)
next
  case (SockOpen s)
  with assms(1) show ?thesis
    by (auto simp: onopen_def Let_def invoke_stays_out tame_def split: option.splits if_splits)
next
  case (SockMessage s fr)
  then show ?thesis
    using handleMessage_completions [OF assms(1,2), of env]
    by (cases fr) (simp_all add: onmessage_def)
next
  case (SockError s)
  with assms(1) show ?thesis
    by (auto simp: onerror_def invoke_stays_out tame_def split: option.splits if_splits)
next
  case (SockClose s code)
  with assms(1) show ?thesis
    by (auto simp: onclose_def handleDisconnect_def Let_def invoke_stays_out tame_def
          split: option.splits if_splits)
next
  case (TimerFire t)
  with assms(1) show ?thesis
    by (auto simp: establishConnection_def establishConnection_with_def Let_def
          invoke_stays_out tame_def split: option.splits if_splits)
qed

lemma run_completions:
  assumes "tame (callbacks w)" and "returns (onExecutionComplete (callbacks w))"
    and "\<not> list_ex is_Connect es"
  shows "completions (calls (run env es w)) \<le> completions (calls w) + 1"
  using assms
proof (induction es arbitrary: w)
  case Nil
  then show ?case by simp
next
  case (Cons e es)
  from Cons.prems have ne: "\<not> is_Connect e" and nes: "\<not> list_ex is_Connect es"
    by simp_all
  from step_completions [OF Cons.prems(1,2) ne, of env] show ?case
  proof
    assume same: "completions (calls (step env e w)) = completions (calls w)
                  \<and> callbacks (step env e w) = callbacks w"
    with Cons.prems have "tame (callbacks (step env e w))"
      "returns (onExecutionComplete (callbacks (step env e w)))"
      by simp_all
    from Cons.IH [OF this nes] same show ?thesis by simp
  next
    assume q: "quiet (step env e w)
               \<and> completions (calls (step env e w)) \<le> completions (calls w) + 1"
    then have "calls (run env es (step env e w)) = calls (step env e w)"
      using quiet_run [of "step env e w" es env] nes by simp
    with q show ?thesis by simp
  qed
qed

section \<open>The reconnect budget\<close>







section \<open>The example worlds\<close>


lemma open_world_value:
  "open_world =
     \<lparr>ws = Some 0, executionId = Some ''exec-42'', callbacks = callbacks_A,
      reconnectAttempts = 0, reconnectTimeout = None,
      sockets = [\<lparr>url = ''ws://localhost:8000/ws/execution/exec-42'', readyState = OPEN,
                  close_calls = []\<rparr>],
      timers = [], timer_seq = 1,
      calls = [(4, Status Connecting), (4, Status Connected)]\<rparr>"
  by (simp add: open_world_def channel_defs)

lemma throwing_world_value:
  "throwing_world =
     \<lparr>ws = Some 0, executionId = Some ''exec-42'', callbacks = callbacks_T,
      reconnectAttempts = 0, reconnectTimeout = None,
      sockets = [\<lparr>url = ''ws://localhost:8000/ws/execution/exec-42'', readyState = OPEN,
                  close_calls = []\<rparr>],
      timers = [], timer_seq = 1,
      calls = [(4, Status Connecting), (4, Status Connected)]\<rparr>"
  by (simp add: throwing_world_def channel_defs)

lemma reentrant_world_value:
  "reentrant_world =
     \<lparr>ws = Some 0, executionId = Some ''exec-42'', callbacks = callbacks_R,
      reconnectAttempts = 0, reconnectTimeout = None,
      sockets = [\<lparr>url = ''ws://localhost:8000/ws/execution/exec-42'', readyState = OPEN,
                  close_calls = []\<rparr>],
      timers = [], timer_seq = 1,
      calls = [(4, Status Connecting), (4, Status Connected)]\<rparr>"
  by (simp add: reentrant_world_def channel_defs)

lemma pending_world_value:
  "pending_world =
     \<lparr>ws = Some 1, executionId = Some ''exec-42'', callbacks = callbacks_A,
      reconnectAttempts = 1, reconnectTimeout = Some 1,
      sockets = [\<lparr>url = ''ws://localhost:8000/ws/execution/exec-42'', readyState = CLOSED,
                  close_calls = []\<rparr>,
                 \<lparr>url = ''ws://localhost:8000/ws/execution/exec-42'', readyState = OPEN,
                  close_calls = []\<rparr>],
      timers = [(1, 2000)], timer_seq = 2,
      calls = [(4, Status Connecting), (4, Status Connected), (4, Status Connecting),
               (4, Status Connected), (4, Status Disconnected)]\<rparr>"
  by (simp add: pending_world_def drop_beside_open_def channel_defs)


lemma tame_examples [simp]: "tame callbacks_A" "tame callbacks_B" "tame callbacks_T"
  by (simp_all add: tame_def stays_out_def callbacks_A_def callbacks_B_def callbacks_T_def plain_def)

section \<open>How a message is routed\<close>

lemma ready_disconnect:
  "ready (disconnect w) s =
     (if ws w = Some s \<and> (ready w s = Some CONNECTING \<or> ready w s = Some OPEN)
      then Some CLOSING else ready w s)"
  by (auto simp: ready_def disconnect_def Let_def socket_close_def nth_list_update
        split: option.splits)

lemma ready_record_call [simp]: "ready (record_call cb a w) s = ready w s"
  by (simp add: ready_def)

lemma step_message_open:
  "ready w s = Some OPEN \<Longrightarrow>
   step env (SockMessage s (Parsed m)) w = state_of (handleMessage env m w)"
  by (simp add: onmessage_def)

lemma handleMessage_tagged:
  "map_of kvs ''type'' = Some (JStr ''step_complete'') \<Longrightarrow>
   handleMessage env (JObj kvs) w
     = invoke env (onStepComplete (callbacks w)) (Step (map_of kvs ''data'')) w"
  "map_of kvs ''type'' = Some (JStr ''execution_complete'') \<Longrightarrow>
   handleMessage env (JObj kvs) w
     = and_then (invoke env (onExecutionComplete (callbacks w)) (Result (map_of kvs ''data'')) w)
         (\<lambda>w1. Normal (disconnect w1))"
  "map_of kvs ''type'' = Some (JStr ''error'') \<Longrightarrow>
   property (map_of kvs ''data'') ''message'' = Some msg \<Longrightarrow>
   handleMessage env (JObj kvs) w
     = invoke env (onError (callbacks w)) (ErrorMsg (or_else msg (JStr ''Unknown error''))) w"
  by (simp_all add: handleMessage_def)

lemma handleMessage_reads_type_and_data:
  assumes "map_of kvs' ''type'' = map_of kvs ''type''"
    and "map_of kvs' ''data'' = map_of kvs ''data''"
  shows "handleMessage env (JObj kvs') w = handleMessage env (JObj kvs) w"
  using assms by (simp add: handleMessage_def)

lemma complete_step:
  assumes "ready w s = Some OPEN"
    and "map_of kvs ''type'' = Some (JStr ''execution_complete'')"
    and "stays_out (onExecutionComplete (callbacks w))"
    and "returns (onExecutionComplete (callbacks w))"
  shows "step env (SockMessage s (Parsed (JObj kvs))) w
           = disconnect (case onExecutionComplete (callbacks w) of
                           None \<Rightarrow> w
                         | Some cb \<Rightarrow> record_call cb (Result (map_of kvs ''data'')) w)"
  using assms
  by (auto simp: onmessage_def handleMessage_def invoke_stays_out returns_def
        split: option.splits)

lemma connect_tame:
  assumes "tame cbs"
  shows "callbacks (step env (Connect ident cbs) v) = cbs
         \<and> completions (calls (step env (Connect ident cbs) v)) = completions (calls v)"
  using assms
  by (auto simp: connect_def establishConnection_def establishConnection_with_def Let_def
        invoke_stays_out tame_def split: option.splits if_splits)

text \<open>
  Whatever a callback does, the log only grows, and the invocation of the callback itself
  comes first.
\<close>

lemma calls_reenter: "\<exists>more. calls (reenter env r w) = calls w @ more"
  by (cases r)
     (auto simp: reenter_def establishConnection_with_def notify_def Let_def
        split: option.splits)

lemma calls_reenter_all: "\<exists>more. calls (foldl (\<lambda>v r. reenter env r v) w rs) = calls w @ more"
proof (induction rs arbitrary: w)
  case Nil
  then show ?case by simp
next
  case (Cons r rs)
  from calls_reenter [of env r w] obtain m where m: "calls (reenter env r w) = calls w @ m"
    by blast
  from Cons.IH [of "reenter env r w"] obtain m'
    where "calls (foldl (\<lambda>v r. reenter env r v) (reenter env r w) rs) = calls (reenter env r w) @ m'"
    by blast
  with m show ?case by simp
qed

lemma invoke_first_call:
  "\<exists>more. calls (state_of (invoke env (Some cb) a w)) = calls w @ (callee cb, a) # more"
  using calls_reenter_all [of env "record_call cb a w" "does cb"]
  by (auto simp: invoke_def Let_def)

lemma and_then_disconnect_calls:
  "calls (state_of (and_then r (\<lambda>w1. Normal (disconnect w1)))) = calls (state_of r)"
  by (cases r) simp_all

text \<open>
  A completion callback that subscribes to the next execution: the \<^verbatim>\<open>disconnect\<close> that
  follows the callback closes the socket just constructed and drops the new callbacks,
  while the socket on which the execution completed stays open.
\<close>

lemma reentrant_connect_is_undone:
  "step example_env (SockMessage 0 (Parsed complete_frame)) reentrant_world =
     \<lparr>ws = None, executionId = None, callbacks = no_callbacks,
      reconnectAttempts = 3, reconnectTimeout = None,
      sockets = [\<lparr>url = ''ws://localhost:8000/ws/execution/exec-42'', readyState = OPEN,
                  close_calls = []\<rparr>,
                 \<lparr>url = ''ws://localhost:8000/ws/execution/exec-43'', readyState = CLOSING,
                  close_calls = [(1000, ''Client disconnect'')]\<rparr>],
      timers = [], timer_seq = 1,
      calls = [(4, Status Connecting), (4, Status Connected), (2, Result (Some result_data)),
               (24, Status Connecting)]\<rparr>"
  by (simp add: reentrant_world_value complete_frame_def channel_defs)

section \<open>How an error response is reported\<close>

lemma error_payload_unparsable:
  "unparsable rt r \<Longrightarrow>
   error_payload rt r
     = JObj [(''error'', JStr ''Request failed''), (''detail'', JStr (statusText r))]"
  by (auto simp: unparsable_def error_payload_def Let_def isl_def split: sum.splits)

lemma request_error_response:
  assumes "settle_time net \<le> timeout c" and "fetch_result net = Inr r" and "\<not> ok r"
  shows "outcome (request rt c net) =
           catch_block
             (case read_error rt (error_payload rt r) of
                Inl e \<Rightarrow> Throws e
              | Inr p \<Rightarrow>
                  (case String_of rt (or_else p (JStr ''Request failed'')) of
                     Inl e \<Rightarrow> Throws e
                   | Inr msg \<Rightarrow>
                       ThrowsApi (ApiRequestError msg (http_status r)
                                    (Some (error_payload rt r)))))"
  using assms by (simp add: request_def after_fetch_def Let_def)

text \<open>
  A non-2xx response whose body is the JSON value \<^verbatim>\<open>null\<close>, or whose \<^verbatim>\<open>error\<close> field has no
  string form, fails with status 0: the \<^verbatim>\<open>TypeError\<close> raised while the failure is being
  built is caught by the client's own \<^verbatim>\<open>catch\<close> block.
\<close>

lemma error_response_reported_as_network_failure:
  "outcome (request example_runtime (apiClient ''http://localhost:8000'') null_error)
     = Inl (ApiRequestError ''Cannot read properties of null'' 0 None)
   \<and> outcome (request example_runtime (apiClient ''http://localhost:8000'') odd_error)
       = Inl (ApiRequestError ''Cannot convert object to primitive value'' 0 None)"
  by (simp add: client_defs null_error_def null_500_def odd_error_def odd_422_def)

section \<open>Properties of the realtime channel\<close>

subsection \<open>One callback set at a time\<close>

text \<open>
  C1, as stated, does not hold: \<^verbatim>\<open>connect\<close> overwrites the socket handle without closing
  the socket it held. Here a second \<^verbatim>\<open>connect\<close> arrives while the socket of the first
  subscription is open; that socket stays open, no \<^verbatim>\<open>close\<close> is ever called on it, and a
  step frame arriving on it afterwards is delivered, to the step callback of the second
  callback set.
\<close>

theorem old_socket_reaches_new_callbacks:
  "ws (run example_env two_connects executionWebSocket) = Some 1
   \<and> ready (run example_env two_connects executionWebSocket) 0 = Some OPEN
   \<and> close_calls (sockets (run example_env two_connects executionWebSocket) ! 0) = []
   \<and> calls (step example_env (SockMessage 0 (Parsed step_frame))
              (run example_env two_connects executionWebSocket))
       = calls (run example_env two_connects executionWebSocket)
         @ [(11, Step (Some step_data))]"
  by (simp add: channel_defs two_connects_def step_frame_def)

text \<open>
  C1, amended. The client holds one execution id and one callback set at any time:
  \<^verbatim>\<open>connect(executionId2, callbacks2)\<close> replaces both and resets the reconnect counter.
  When the id is not empty, the \<^verbatim>\<open>onConnectionChange\<close> callback returns and the
  \<^verbatim>\<open>WebSocket\<close> constructor accepts the URL, one new socket for the URL of that id is
  constructed, still connecting, and becomes the client's current socket; when the id is
  empty, the callback throws or the URL is rejected, no socket is constructed and the
  current one stays. In every case the sockets constructed earlier are left as they are
  (none is closed), and so are the pending timers. From then on, until the next
  \<^verbatim>\<open>connect\<close>, every callback invocation, whatever socket or timer causes it, is an
  invocation of a function of \<open>callbacks2\<close>; the previous callback set is never called
  again. (The callbacks are taken not to call back into the client.)
\<close>

theorem connect_replaces_callbacks:
  assumes "tame cbs" and "\<not> list_ex is_Connect es"
  shows "executionId (step env (Connect ident cbs) w) = Some ident
         \<and> callbacks (step env (Connect ident cbs) w) = cbs
         \<and> reconnectAttempts (step env (Connect ident cbs) w) = 0
         \<and> (ident \<noteq> [] \<and> returns (onConnectionChange cbs)
              \<and> accepts env (WS_URL env @ EXECUTION_WS ident) \<longrightarrow>
               sockets (step env (Connect ident cbs) w)
                 = sockets w @ [\<lparr>url = WS_URL env @ EXECUTION_WS ident,
                                  readyState = CONNECTING, close_calls = []\<rparr>]
               \<and> ws (step env (Connect ident cbs) w) = Some (length (sockets w)))
         \<and> (ident = [] \<or> \<not> returns (onConnectionChange cbs)
              \<or> \<not> accepts env (WS_URL env @ EXECUTION_WS ident) \<longrightarrow>
               sockets (step env (Connect ident cbs) w) = sockets w
               \<and> ws (step env (Connect ident cbs) w) = ws w)
         \<and> take (length (sockets w)) (sockets (step env (Connect ident cbs) w)) = sockets w
         \<and> timers (step env (Connect ident cbs) w) = timers w
         \<and> (\<exists>added. calls (run env es (step env (Connect ident cbs) w)) = calls w @ added
                     \<and> fst ` set added \<subseteq> handlers cbs)"
proof -
  let ?w0 = "w\<lparr>executionId := Some ident, callbacks := cbs, reconnectAttempts := 0\<rparr>"
  let ?w1 = "step env (Connect ident cbs) w"
  have c: "?w1 = state_of (establishConnection env ?w0)"
    by (simp add: connect_def)
  from assms(1) have so: "stays_out (onConnectionChange cbs)" "stays_out (onError cbs)"
    by (simp_all add: tame_def)
  from establishConnection_delivers [of ?w0 env] assms(1)
  have d0: "delivered_to (handlers cbs) (calls w) (calls ?w1)"
    and cb: "callbacks ?w1 = cbs"
    by (simp_all add: connect_def)
  from cb assms(1) have t1: "tame (callbacks ?w1)" and h1: "handlers (callbacks ?w1) \<subseteq> handlers cbs"
    by simp_all
  from delivered_to_trans [OF d0 run_delivers [OF t1 assms(2) h1]]
  have d: "\<exists>added. calls (run env es ?w1) = calls w @ added \<and> fst ` set added \<subseteq> handlers cbs"
    by (simp add: delivered_to_def)
  have fields: "executionId ?w1 = Some ident" "reconnectAttempts ?w1 = 0"
    "take (length (sockets w)) (sockets ?w1) = sockets w" "timers ?w1 = timers w"
    using so
    by (auto simp: connect_def establishConnection_def establishConnection_with_def Let_def
          invoke_stays_out split: option.splits)
  have opened: "ident \<noteq> [] \<and> returns (onConnectionChange cbs)
              \<and> accepts env (WS_URL env @ EXECUTION_WS ident) \<longrightarrow>
               sockets ?w1
                 = sockets w @ [\<lparr>url = WS_URL env @ EXECUTION_WS ident,
                                  readyState = CONNECTING, close_calls = []\<rparr>]
               \<and> ws ?w1 = Some (length (sockets w))"
    using so
    by (auto simp: connect_def establishConnection_def establishConnection_with_def Let_def
          invoke_stays_out has_id_def returns_def split: option.splits)
  have unopened: "ident = [] \<or> \<not> returns (onConnectionChange cbs)
              \<or> \<not> accepts env (WS_URL env @ EXECUTION_WS ident) \<longrightarrow>
               sockets ?w1 = sockets w \<and> ws ?w1 = ws w"
    using so
    by (auto simp: connect_def establishConnection_def establishConnection_with_def Let_def
          invoke_stays_out has_id_def returns_def split: option.splits)
  from cb d fields opened unopened show ?thesis by blast
qed

theorem connect_replaces_callbacks_witness:
  "tame callbacks_B
   \<and> \<not> list_ex is_Connect [SockMessage 0 (Parsed step_frame), SockClose 0 1006]
   \<and> ''B'' \<noteq> [] \<and> returns (onConnectionChange callbacks_B)
   \<and> accepts example_env (WS_URL example_env @ EXECUTION_WS ''B'')
   \<and> callbacks (step example_env (Connect ''B'' callbacks_B) open_world) = callbacks_B
   \<and> ws (step example_env (Connect ''B'' callbacks_B) open_world) = Some 1
   \<and> sockets (step example_env (Connect ''B'' callbacks_B) open_world)
       = sockets open_world
         @ [\<lparr>url = ''ws://localhost:8000/ws/execution/B'', readyState = CONNECTING,
             close_calls = []\<rparr>]
   \<and> (\<exists>added.
         calls (run example_env [SockMessage 0 (Parsed step_frame), SockClose 0 1006]
                  (step example_env (Connect ''B'' callbacks_B) open_world))
           = calls open_world @ added
         \<and> fst ` set added \<subseteq> handlers callbacks_B)"
proof -
  have h1: "tame callbacks_B" by simp
  have h2: "\<not> list_ex is_Connect [SockMessage 0 (Parsed step_frame), SockClose 0 1006]"
    by simp
  have h3: "''B'' \<noteq> []" "returns (onConnectionChange callbacks_B)"
    "accepts example_env (WS_URL example_env @ EXECUTION_WS ''B'')"
    by (simp_all add: returns_def callbacks_B_def plain_def example_env_def)
  have u: "WS_URL example_env @ EXECUTION_WS ''B'' = ''ws://localhost:8000/ws/execution/B''"
    "length (sockets open_world) = 1"
    by (simp_all add: example_env_def EXECUTION_WS_def open_world_value)
  note c = connect_replaces_callbacks [OF h1 h2, of example_env "''B''" open_world]
  from c h3 u have
    "ws (step example_env (Connect ''B'' callbacks_B) open_world) = Some 1"
    "sockets (step example_env (Connect ''B'' callbacks_B) open_world)
       = sockets open_world
         @ [\<lparr>url = ''ws://localhost:8000/ws/execution/B'', readyState = CONNECTING,
             close_calls = []\<rparr>]"
    by (simp_all del: step.simps run.simps)
  with c h1 h2 h3 show ?thesis by blast
qed

subsection \<open>Reconnection\<close>




subsection \<open>Explicit disconnect\<close>

text \<open>
  C6, as stated, does not hold: the close event of the socket that \<^verbatim>\<open>disconnect\<close> closed
  can still cause a reconnect, once \<^verbatim>\<open>connect\<close> has been called again. Here \<^verbatim>\<open>disconnect\<close>
  is called with a timer pending and cancels it; \<^verbatim>\<open>connect\<close> then starts a subscription B;
  the close event of the first subscription's socket arrives after that, is reported to
  B as \<open>disconnected\<close> and schedules a reconnect, and when that timer fires a further
  socket is constructed and \<open>connecting\<close> is reported.
\<close>

theorem stale_close_reconnects:
  "reconnectTimeout pending_world = Some 1
   \<and> 1 \<in> fst ` set (timers pending_world)
   \<and> ws pending_world = Some 1
   \<and> timers (run example_env [Disconnect] pending_world) = []
   \<and> timers (run example_env [Disconnect, Connect ''B'' callbacks_B, SockClose 1 1000]
               pending_world) = [(2, 2000)]
   \<and> calls (run example_env
              [Disconnect, Connect ''B'' callbacks_B, SockClose 1 1000, TimerFire 2] pending_world)
       = calls pending_world
         @ [(14, Status Connecting), (14, Status Disconnected), (14, Status Connecting)]
   \<and> length (sockets (run example_env
                        [Disconnect, Connect ''B'' callbacks_B, SockClose 1 1000, TimerFire 2]
                        pending_world)) = 4"
  by (simp add: pending_world_value channel_defs)

text \<open>
  C6, amended. Calling \<^verbatim>\<open>disconnect\<close> while a reconnect timer is pending cancels that timer,
  calls \<^verbatim>\<open>close(1000, 'Client disconnect')\<close> on the socket the client holds, clears the
  stored execution id and callbacks, and sets the reconnect counter to its maximum.
  Afterwards, whatever close events, other socket events or timers arrive, nothing
  happens until \<^verbatim>\<open>connect\<close> is called again: no callback is invoked (so no \<open>connecting\<close>
  transition is reported), no socket is constructed and no timer is started. The
  cancelled timer never fires, and a socket that had closed before the call stays silent,
  for good, also after a later \<^verbatim>\<open>connect\<close>.
\<close>

theorem disconnect_is_final:
  assumes "reconnectTimeout w = Some t" and "t \<in> fst ` set (timers w)" and "t < timer_seq w"
    and "\<not> list_ex is_Connect es"
  shows "t \<notin> fst ` set (timers (disconnect w))
         \<and> (\<forall>s. ws w = Some s \<and> s < length (sockets w) \<longrightarrow>
               close_calls (sockets (disconnect w) ! s)
                 = close_calls (sockets w ! s) @ [(1000, ''Client disconnect'')])
         \<and> ws (disconnect w) = None
         \<and> executionId (disconnect w) = None
         \<and> callbacks (disconnect w) = no_callbacks
         \<and> reconnectAttempts (disconnect w) = maxReconnectAttempts
         \<and> calls (run env es (disconnect w)) = calls w
         \<and> length (sockets (run env es (disconnect w))) = length (sockets w)
         \<and> timer_seq (run env es (disconnect w)) = timer_seq w
         \<and> step env (TimerFire t) (run env es' (disconnect w)) = run env es' (disconnect w)
         \<and> (\<forall>s e. sock_closed w s \<and> on_socket s e \<longrightarrow>
               step env e (run env es' (disconnect w)) = run env es' (disconnect w))"
proof -
  have q: "quiet (disconnect w)" by (simp add: quiet_def)
  note r = quiet_run [OF q assms(4), of env]
  from assms(1) have gone: "t \<notin> fst ` set (timers (disconnect w))"
    by (auto simp: disconnect_timers)
  have sock: "\<forall>s. ws w = Some s \<and> s < length (sockets w) \<longrightarrow>
               close_calls (sockets (disconnect w) ! s)
                 = close_calls (sockets w ! s) @ [(1000, ''Client disconnect'')]"
    by (auto simp: disconnect_def Let_def socket_close_def split: option.splits)
  from gone assms(3) have "cancelled (disconnect w) t"
    by (simp add: cancelled_def)
  then have "cancelled (run env es' (disconnect w)) t"
    by (rule cancelled_later) (rule later_run)
  then have timer: "step env (TimerFire t) (run env es' (disconnect w)) = run env es' (disconnect w)"
    by (rule cancelled_silent)
  have silent: "\<forall>s e. sock_closed w s \<and> on_socket s e \<longrightarrow>
               step env e (run env es' (disconnect w)) = run env es' (disconnect w)"
  proof (intro allI impI)
    fix s e
    assume a: "sock_closed w s \<and> on_socket s e"
    have "later w (run env es' (disconnect w))"
      by (rule later_trans [OF later_disconnect later_run])
    with a have "sock_closed (run env es' (disconnect w)) s"
      by (blast intro: sock_closed_later)
    with a show "step env e (run env es' (disconnect w)) = run env es' (disconnect w)"
      by (simp add: sock_closed_silent)
  qed
  from gone sock r timer silent show ?thesis by simp
qed

theorem disconnect_is_final_witness:
  "reconnectTimeout pending_world = Some 1
   \<and> 1 \<in> fst ` set (timers pending_world)
   \<and> 1 < timer_seq pending_world
   \<and> \<not> list_ex is_Connect [SockClose 1 1000, TimerFire 1, SockMessage 1 (Parsed step_frame)]
   \<and> ws pending_world = Some 1 \<and> 1 < length (sockets pending_world)
   \<and> sock_closed pending_world 0 \<and> on_socket 0 (SockError 0)
   \<and> 1 \<notin> fst ` set (timers (disconnect pending_world))
   \<and> close_calls (sockets (disconnect pending_world) ! 1) = [(1000, ''Client disconnect'')]
   \<and> calls (run example_env [SockClose 1 1000, TimerFire 1, SockMessage 1 (Parsed step_frame)]
              (disconnect pending_world))
       = calls pending_world
   \<and> step example_env (TimerFire 1)
       (run example_env [Connect ''B'' callbacks_B] (disconnect pending_world))
       = run example_env [Connect ''B'' callbacks_B] (disconnect pending_world)
   \<and> step example_env (SockError 0)
       (run example_env [Connect ''B'' callbacks_B] (disconnect pending_world))
       = run example_env [Connect ''B'' callbacks_B] (disconnect pending_world)"
proof -
  let ?es = "[SockClose 1 1000, TimerFire 1, SockMessage 1 (Parsed step_frame)]"
  have h1: "reconnectTimeout pending_world = Some 1"
    and h2: "1 \<in> fst ` set (timers pending_world)"
    and h3: "1 < timer_seq pending_world"
    by (simp_all add: pending_world_value)
  have h4: "\<not> list_ex is_Connect ?es" by simp
  have w: "ws pending_world = Some 1" "1 < length (sockets pending_world)"
    "close_calls (sockets pending_world ! 1) = []"
    "sock_closed pending_world 0" "on_socket 0 (SockError 0)"
    by (simp_all add: pending_world_value sock_closed_def ready_def)
  note d = disconnect_is_final [OF h1 h2 h3 h4, of example_env "[Connect ''B'' callbacks_B]"]
  from d w have c1: "close_calls (sockets (disconnect pending_world) ! 1)
      = [(1000, ''Client disconnect'')]"
    by (simp del: run.simps step.simps)
  from d w have c2: "step example_env (SockError 0)
       (run example_env [Connect ''B'' callbacks_B] (disconnect pending_world))
       = run example_env [Connect ''B'' callbacks_B] (disconnect pending_world)"
    by blast
  from d h1 h2 h3 h4 w c1 c2 show ?thesis by blast
qed

subsection \<open>Completion ends the subscription\<close>

text \<open>
  C7, as stated, does not hold: when the completion callback throws, the \<^verbatim>\<open>disconnect\<close>
  that follows it is skipped, and the message handler swallows the exception. The socket
  stays open and the subscription live: a step frame that follows is delivered, and a
  second \<^verbatim>\<open>execution_complete\<close> frame invokes the completion callback a second time.
\<close>

theorem throwing_completion_skips_disconnect:
  "ready throwing_world 0 = Some OPEN
   \<and> ws throwing_world = Some 0
   \<and> stays_out (onExecutionComplete (callbacks throwing_world))
   \<and> \<not> returns (onExecutionComplete (callbacks throwing_world))
   \<and> calls (run example_env
              [SockMessage 0 (Parsed complete_frame), SockMessage 0 (Parsed step_frame),
               SockMessage 0 (Parsed complete_frame)] throwing_world)
       = calls throwing_world
         @ [(2, Result (Some result_data)), (1, Step (Some step_data)),
            (2, Result (Some result_data))]
   \<and> completions (calls (run example_env
                            [SockMessage 0 (Parsed complete_frame),
                             SockMessage 0 (Parsed step_frame),
                             SockMessage 0 (Parsed complete_frame)] throwing_world))
       = 2
   \<and> ready (run example_env
              [SockMessage 0 (Parsed complete_frame), SockMessage 0 (Parsed step_frame),
               SockMessage 0 (Parsed complete_frame)] throwing_world) 0 = Some OPEN
   \<and> executionId (run example_env
              [SockMessage 0 (Parsed complete_frame), SockMessage 0 (Parsed step_frame),
               SockMessage 0 (Parsed complete_frame)] throwing_world) = Some ''exec-42''"
  by (simp add: throwing_world_value complete_frame_def step_frame_def stays_out_def
        returns_def channel_defs)

text \<open>
  C7, amended. When an \<^verbatim>\<open>execution_complete\<close> frame arrives on the open socket the client
  holds, and the completion callback returns without calling back into the client, the
  client invokes \<^verbatim>\<open>onExecutionComplete\<close> with the payload and then does what
  \<^verbatim>\<open>disconnect\<close> does. From then on, until \<^verbatim>\<open>connect\<close> is called again, no event produces a
  callback invocation of any kind; the socket the subscription held never delivers a
  frame again, whatever happens later. And between two calls of \<^verbatim>\<open>connect\<close>, with callbacks
  that do not call back into the client and a completion callback that returns, the
  completion callback fires at most once.
\<close>

theorem completion_closes_channel:
  assumes "ready w s = Some OPEN" and "ws w = Some s"
    and "map_of kvs ''type'' = Some (JStr ''execution_complete'')"
    and "stays_out (onExecutionComplete (callbacks w))"
    and "returns (onExecutionComplete (callbacks w))"
    and "\<not> list_ex is_Connect es"
    and "tame cbs" and "returns (onExecutionComplete cbs)" and "\<not> list_ex is_Connect es''"
  shows "calls (step env (SockMessage s (Parsed (JObj kvs))) w)
           = calls w @ (case onExecutionComplete (callbacks w) of
                          None \<Rightarrow> []
                        | Some cb \<Rightarrow> [(callee cb, Result (map_of kvs ''data''))])
         \<and> step env (SockMessage s (Parsed (JObj kvs))) w
             = disconnect (w\<lparr>calls := calls (step env (SockMessage s (Parsed (JObj kvs))) w)\<rparr>)
         \<and> ready (step env (SockMessage s (Parsed (JObj kvs))) w) s = Some CLOSING
         \<and> calls (run env es (step env (SockMessage s (Parsed (JObj kvs))) w))
             = calls (step env (SockMessage s (Parsed (JObj kvs))) w)
         \<and> (\<forall>fr. step env (SockMessage s fr)
                    (run env es' (step env (SockMessage s (Parsed (JObj kvs))) w))
                  = run env es' (step env (SockMessage s (Parsed (JObj kvs))) w))
         \<and> completions (calls (run env es'' (step env (Connect ident cbs) v)))
             \<le> completions (calls v) + 1"
proof -
  let ?W = "step env (SockMessage s (Parsed (JObj kvs))) w"
  note W = complete_step [OF assms(1,3,4,5), of env]
  have c1: "calls ?W = calls w @ (case onExecutionComplete (callbacks w) of
                          None \<Rightarrow> []
                        | Some cb \<Rightarrow> [(callee cb, Result (map_of kvs ''data''))])"
    by (simp add: W del: step.simps split: option.splits)
  have "disconnect (w\<lparr>calls := calls ?W\<rparr>)
          = disconnect (case onExecutionComplete (callbacks w) of
                          None \<Rightarrow> w
                        | Some cb \<Rightarrow> record_call cb (Result (map_of kvs ''data'')) w)"
    by (simp only: c1) (simp add: record_call_def split: option.splits)
  then have c2: "?W = disconnect (w\<lparr>calls := calls ?W\<rparr>)"
    by (rule trans [OF W sym])
  have c3: "ready ?W s = Some CLOSING"
    using assms(1,2) by (simp add: W ready_disconnect del: step.simps split: option.splits)
  have q: "quiet ?W"
    by (simp add: W quiet_def del: step.simps)
  from quiet_run [OF q assms(6), of env] have c4: "calls (run env es ?W) = calls ?W"
    by simp
  from c3 have "sock_shut ?W s" by (simp add: sock_shut_def)
  then have "sock_shut (run env es' ?W) s"
    by (rule sock_shut_later) (rule later_run)
  then have c5: "\<forall>fr. step env (SockMessage s fr) (run env es' ?W) = run env es' ?W"
    by (simp add: sock_shut_no_message del: step.simps)
  from connect_tame [OF assms(7), of env ident v]
  have t: "tame (callbacks (step env (Connect ident cbs) v))"
    and r: "returns (onExecutionComplete (callbacks (step env (Connect ident cbs) v)))"
    and n: "completions (calls (step env (Connect ident cbs) v)) = completions (calls v)"
    using assms(7,8) by simp_all
  from run_completions [OF t r assms(9), of env] n
  have c6: "completions (calls (run env es'' (step env (Connect ident cbs) v)))
             \<le> completions (calls v) + 1"
    by simp
  from c1 c2 c3 c4 c5 c6 show ?thesis by blast
qed

theorem completion_closes_channel_witness:
  "ready open_world 0 = Some OPEN
   \<and> ws open_world = Some 0
   \<and> stays_out (onExecutionComplete (callbacks open_world))
   \<and> returns (onExecutionComplete (callbacks open_world))
   \<and> \<not> list_ex is_Connect [SockMessage 0 (Parsed step_frame), SockMessage 0 (Parsed complete_frame),
                             SockError 0, SockClose 0 1000]
   \<and> tame callbacks_A
   \<and> returns (onExecutionComplete callbacks_A)
   \<and> \<not> list_ex is_Connect [SockOpen 0, SockMessage 0 (Parsed complete_frame),
                             SockMessage 0 (Parsed complete_frame)]
   \<and> calls (step example_env (SockMessage 0 (Parsed complete_frame)) open_world)
       = calls open_world @ [(2, Result (Some result_data))]
   \<and> ready (step example_env (SockMessage 0 (Parsed complete_frame)) open_world) 0 = Some CLOSING
   \<and> calls (run example_env
              [SockMessage 0 (Parsed step_frame), SockMessage 0 (Parsed complete_frame),
               SockError 0, SockClose 0 1000]
              (step example_env (SockMessage 0 (Parsed complete_frame)) open_world))
       = calls (step example_env (SockMessage 0 (Parsed complete_frame)) open_world)
   \<and> step example_env (SockMessage 0 (Parsed step_frame))
       (run example_env [Connect ''B'' callbacks_B]
          (step example_env (SockMessage 0 (Parsed complete_frame)) open_world))
       = run example_env [Connect ''B'' callbacks_B]
           (step example_env (SockMessage 0 (Parsed complete_frame)) open_world)
   \<and> completions (calls (run example_env
                            [SockOpen 0, SockMessage 0 (Parsed complete_frame),
                             SockMessage 0 (Parsed complete_frame)]
                            (step example_env (Connect ''exec-42'' callbacks_A)
                               executionWebSocket)))
       \<le> 1"
proof -
  let ?kvs = "[(''type'', JStr ''execution_complete''), (''execution_id'', JStr ''exec-42''),
               (''data'', result_data)]"
  let ?es = "[SockMessage 0 (Parsed step_frame), SockMessage 0 (Parsed complete_frame),
              SockError 0, SockClose 0 1000]"
  let ?es'' = "[SockOpen 0, SockMessage 0 (Parsed complete_frame),
                SockMessage 0 (Parsed complete_frame)]"
  have h1: "ready open_world 0 = Some OPEN" and h2: "ws open_world = Some 0"
    and h4: "stays_out (onExecutionComplete (callbacks open_world))"
    and h5: "returns (onExecutionComplete (callbacks open_world))"
    and cb: "onExecutionComplete (callbacks open_world)
               = Some \<lparr>callee = 2, does = [], throws = False\<rparr>"
    by (simp_all add: open_world_value ready_def stays_out_def returns_def callbacks_A_def
          plain_def)
  have h3: "map_of ?kvs ''type'' = Some (JStr ''execution_complete'')"
    and d: "map_of ?kvs ''data'' = Some result_data"
    by simp_all
  have h6: "\<not> list_ex is_Connect ?es" and h9: "\<not> list_ex is_Connect ?es''"
    by simp_all
  have h7: "tame callbacks_A"
    by simp
  have h8: "returns (onExecutionComplete callbacks_A)"
    by (simp add: returns_def callbacks_A_def plain_def)
  have e: "completions (calls executionWebSocket) = 0"
    by (simp add: executionWebSocket_def completions_def)
  note t = completion_closes_channel
    [where w = open_world and s = 0 and kvs = ?kvs and es = ?es and cbs = callbacks_A
       and es'' = ?es'' and env = example_env and es' = "[Connect ''B'' callbacks_B]"
       and ident = "''exec-42''" and v = executionWebSocket,
     OF h1 h2 h3 h4 h5 h6 h7 h8 h9, folded complete_frame_def]
  from t cb d have c1: "calls (step example_env (SockMessage 0 (Parsed complete_frame)) open_world)
       = calls open_world @ [(2, Result (Some result_data))]"
    by (simp del: run.simps step.simps)
  from t e have c6: "completions (calls (run example_env ?es''
                            (step example_env (Connect ''exec-42'' callbacks_A)
                               executionWebSocket))) \<le> 1"
    by (simp del: run.simps step.simps)
  from t h1 h2 h4 h5 h6 h7 h8 h9 c1 c6 show ?thesis by blast
qed

subsection \<open>Server-signalled errors\<close>

text \<open>
  C8, as stated, does not hold for every frame of type \<^verbatim>\<open>error\<close>: when the frame has no
  \<^verbatim>\<open>data\<close> field, or its \<^verbatim>\<open>data\<close> is \<^verbatim>\<open>null\<close>, reading \<^verbatim>\<open>message.data.message\<close> throws, the
  message handler swallows the exception, and \<^verbatim>\<open>onError\<close> is not invoked at all.
\<close>

theorem error_frame_without_payload_is_dropped:
  "ready open_world 0 = Some OPEN
   \<and> onError (callbacks open_world) = plain (Some 3)
   \<and> property (Some dataless_error_frame) ''type'' = Some (Some (JStr ''error''))
   \<and> property (Some dataless_error_frame) ''data'' = Some None
   \<and> step example_env (SockMessage 0 (Parsed dataless_error_frame)) open_world = open_world
   \<and> step example_env
       (SockMessage 0 (Parsed (JObj [(''type'', JStr ''error''), (''data'', JNull)]))) open_world
       = open_world"
  by (simp add: open_world_value dataless_error_frame_def channel_defs)

text \<open>
  C8, amended. When a frame of type \<^verbatim>\<open>error\<close> whose \<^verbatim>\<open>data\<close> is neither absent nor \<^verbatim>\<open>null\<close>
  arrives on an open socket, the client invokes \<^verbatim>\<open>onError\<close>, when the caller supplied
  one, with the payload's \<^verbatim>\<open>message\<close>, or with \<^verbatim>\<open>'Unknown error'\<close> when the payload carries
  none (a message that is empty or otherwise falsy counts as none). Nothing else changes,
  provided the callback does not call back into the client: the socket handle, the
  sockets, the stored id and callbacks, the counter and the timers are as before, no
  connection status is reported, and the socket the frame came on is still open.
\<close>

theorem error_frame_routing:
  assumes "ready w s = Some OPEN"
    and "map_of kvs ''type'' = Some (JStr ''error'')"
    and "property (map_of kvs ''data'') ''message'' = Some msg"
    and "stays_out (onError (callbacks w))"
  shows "step env (SockMessage s (Parsed (JObj kvs))) w
           = w\<lparr>calls := calls w @
                  (case onError (callbacks w) of
                     None \<Rightarrow> []
                   | Some cb \<Rightarrow>
                       [(callee cb,
                         ErrorMsg (if truthy msg then the msg else JStr ''Unknown error''))])\<rparr>
         \<and> ready (step env (SockMessage s (Parsed (JObj kvs))) w) s = Some OPEN
         \<and> sockets (step env (SockMessage s (Parsed (JObj kvs))) w) = sockets w
         \<and> ws (step env (SockMessage s (Parsed (JObj kvs))) w) = ws w
         \<and> executionId (step env (SockMessage s (Parsed (JObj kvs))) w) = executionId w
         \<and> callbacks (step env (SockMessage s (Parsed (JObj kvs))) w) = callbacks w
         \<and> reconnectAttempts (step env (SockMessage s (Parsed (JObj kvs))) w)
             = reconnectAttempts w
         \<and> timers (step env (SockMessage s (Parsed (JObj kvs))) w) = timers w"
proof -
  have m: "or_else msg (JStr ''Unknown error'')
             = (if truthy msg then the msg else JStr ''Unknown error'')"
    by (cases msg) (simp_all add: or_else_def)
  have e: "step env (SockMessage s (Parsed (JObj kvs))) w
           = w\<lparr>calls := calls w @
                  (case onError (callbacks w) of
                     None \<Rightarrow> []
                   | Some cb \<Rightarrow>
                       [(callee cb,
                         ErrorMsg (if truthy msg then the msg else JStr ''Unknown error''))])\<rparr>"
    using assms
    by (auto simp: onmessage_def handleMessage_def invoke_stays_out m record_call_def
          split: option.splits)
  from assms(1) have r: "ready (w\<lparr>calls := cs\<rparr>) s = Some OPEN" for cs
    by (auto simp: ready_def split: if_splits)
  show ?thesis
    by (simp add: e r del: step.simps)
qed

theorem error_frame_routing_witness:
  "ready open_world 0 = Some OPEN
   \<and> stays_out (onError (callbacks open_world))
   \<and> property (map_of [(''type'', JStr ''error''), (''execution_id'', JStr ''exec-42''),
                        (''data'', JObj [(''message'', JStr ''device lost'')])] ''data'')
       ''message'' = Some (Some (JStr ''device lost''))
   \<and> calls (step example_env (SockMessage 0 (Parsed error_frame)) open_world)
       = calls open_world @ [(3, ErrorMsg (JStr ''device lost''))]
   \<and> ready (step example_env (SockMessage 0 (Parsed error_frame)) open_world) 0 = Some OPEN
   \<and> sockets (step example_env (SockMessage 0 (Parsed error_frame)) open_world)
       = sockets open_world
   \<and> property (map_of [(''type'', JStr ''error''), (''execution_id'', JStr ''exec-42''),
                        (''data'', JObj [])] ''data'') ''message'' = Some None
   \<and> calls (step example_env (SockMessage 0 (Parsed bare_error_frame)) open_world)
       = calls open_world @ [(3, ErrorMsg (JStr ''Unknown error''))]"
proof -
  let ?bare = "[(''type'', JStr ''error''), (''execution_id'', JStr ''exec-42''),
                (''data'', JObj [])]"
  have b2: "map_of ?bare ''type'' = Some (JStr ''error'')"
    and b3: "property (map_of ?bare ''data'') ''message'' = Some None"
    by simp_all
  let ?kvs = "[(''type'', JStr ''error''), (''execution_id'', JStr ''exec-42''),
               (''data'', JObj [(''message'', JStr ''device lost'')])]"
  have h1: "ready open_world 0 = Some OPEN"
    and h4: "stays_out (onError (callbacks open_world))"
    and cb: "onError (callbacks open_world) = Some \<lparr>callee = 3, does = [], throws = False\<rparr>"
    by (simp_all add: open_world_value ready_def stays_out_def callbacks_A_def plain_def)
  have h2: "map_of ?kvs ''type'' = Some (JStr ''error'')"
    and h3: "property (map_of ?kvs ''data'') ''message'' = Some (Some (JStr ''device lost''))"
    by simp_all
  note t = error_frame_routing [where w = open_world and s = 0 and kvs = ?kvs
      and env = example_env, OF h1 h2 h3 h4, folded error_frame_def]
  from t have "calls (step example_env (SockMessage 0 (Parsed error_frame)) open_world)
       = calls (open_world\<lparr>calls := calls open_world @
                  (case onError (callbacks open_world) of
                     None \<Rightarrow> []
                   | Some cb \<Rightarrow>
                       [(callee cb,
                         ErrorMsg (if truthy (Some (JStr ''device lost''))
                                   then the (Some (JStr ''device lost''))
                                   else JStr ''Unknown error''))])\<rparr>)"
    by (simp del: step.simps)
  with cb have c1: "calls (step example_env (SockMessage 0 (Parsed error_frame)) open_world)
       = calls open_world @ [(3, ErrorMsg (JStr ''device lost''))]"
    by (simp del: step.simps)
  note t' = error_frame_routing [where w = open_world and s = 0 and kvs = ?bare
      and env = example_env, OF h1 b2 b3 h4, folded bare_error_frame_def]
  from t' have "calls (step example_env (SockMessage 0 (Parsed bare_error_frame)) open_world)
       = calls (open_world\<lparr>calls := calls open_world @
                  (case onError (callbacks open_world) of
                     None \<Rightarrow> []
                   | Some cb \<Rightarrow>
                       [(callee cb,
                         ErrorMsg (if truthy None then the None else JStr ''Unknown error''))])\<rparr>)"
    by (simp del: step.simps)
  with cb have c2: "calls (step example_env (SockMessage 0 (Parsed bare_error_frame)) open_world)
       = calls open_world @ [(3, ErrorMsg (JStr ''Unknown error''))]"
    by (simp del: step.simps)
  from t h1 h3 h4 c1 b3 c2 show ?thesis by blast
qed

subsection \<open>Routing ignores the execution id\<close>

text \<open>
  C10. The router reads the \<^verbatim>\<open>type\<close> and \<^verbatim>\<open>data\<close> fields of a frame and never its
  \<^verbatim>\<open>execution_id\<close>. For a client subscribed to \<open>A\<close>, a frame that arrives on an open socket
  with the id \<open>B\<close>, different from \<open>A\<close>, is handled exactly as the frame with the same
  type and payload and the id \<open>A\<close>; and its payload is delivered: a \<^verbatim>\<open>step_complete\<close> frame
  invokes \<^verbatim>\<open>onStepComplete\<close> with the payload, an \<^verbatim>\<open>execution_complete\<close> frame invokes
  \<^verbatim>\<open>onExecutionComplete\<close> with it, and an \<^verbatim>\<open>error\<close> frame whose payload can be read
  invokes \<^verbatim>\<open>onError\<close> with its message, each as the next callback invocation (and the only
  one, for a step callback that does not call back into the client).
\<close>

theorem routing_ignores_execution_id:
  assumes "ready w s = Some OPEN" and "executionId w = Some A"
    and "map_of kvs ''execution_id'' = Some (JStr B)" and "A \<noteq> B"
    and "map_of kvs' ''execution_id'' = Some (JStr A)"
    and "map_of kvs' ''type'' = map_of kvs ''type''"
    and "map_of kvs' ''data'' = map_of kvs ''data''"
  shows "step env (SockMessage s (Parsed (JObj kvs))) w
           = step env (SockMessage s (Parsed (JObj kvs'))) w
         \<and> (\<forall>cb. map_of kvs ''type'' = Some (JStr ''step_complete'')
                  \<and> onStepComplete (callbacks w) = Some cb \<longrightarrow>
              (\<exists>more. calls (step env (SockMessage s (Parsed (JObj kvs))) w)
                         = calls w @ (callee cb, Step (map_of kvs ''data'')) # more))
         \<and> (\<forall>cb. map_of kvs ''type'' = Some (JStr ''execution_complete'')
                  \<and> onExecutionComplete (callbacks w) = Some cb \<longrightarrow>
              (\<exists>more. calls (step env (SockMessage s (Parsed (JObj kvs))) w)
                         = calls w @ (callee cb, Result (map_of kvs ''data'')) # more))
         \<and> (\<forall>cb msg. map_of kvs ''type'' = Some (JStr ''error'')
                  \<and> property (map_of kvs ''data'') ''message'' = Some msg
                  \<and> onError (callbacks w) = Some cb \<longrightarrow>
              (\<exists>more. calls (step env (SockMessage s (Parsed (JObj kvs))) w)
                         = calls w
                           @ (callee cb, ErrorMsg (or_else msg (JStr ''Unknown error''))) # more))
         \<and> (\<forall>cb. map_of kvs ''type'' = Some (JStr ''step_complete'')
                  \<and> onStepComplete (callbacks w) = Some cb \<and> does cb = [] \<longrightarrow>
              calls (step env (SockMessage s (Parsed (JObj kvs))) w)
                = calls w @ [(callee cb, Step (map_of kvs ''data''))])"
proof -
  note m = step_message_open [OF assms(1), of env]
  have a: "step env (SockMessage s (Parsed (JObj kvs))) w
           = step env (SockMessage s (Parsed (JObj kvs'))) w"
    by (simp only: m handleMessage_reads_type_and_data [OF assms(6,7)])
  have b: "\<forall>cb. map_of kvs ''type'' = Some (JStr ''step_complete'')
                  \<and> onStepComplete (callbacks w) = Some cb \<longrightarrow>
              (\<exists>more. calls (step env (SockMessage s (Parsed (JObj kvs))) w)
                         = calls w @ (callee cb, Step (map_of kvs ''data'')) # more)"
    by (simp add: m handleMessage_tagged invoke_first_call del: step.simps)
  have c: "\<forall>cb. map_of kvs ''type'' = Some (JStr ''execution_complete'')
                  \<and> onExecutionComplete (callbacks w) = Some cb \<longrightarrow>
              (\<exists>more. calls (step env (SockMessage s (Parsed (JObj kvs))) w)
                         = calls w @ (callee cb, Result (map_of kvs ''data'')) # more)"
    by (simp add: m handleMessage_tagged and_then_disconnect_calls invoke_first_call
          del: step.simps)
  have d: "\<forall>cb msg. map_of kvs ''type'' = Some (JStr ''error'')
                  \<and> property (map_of kvs ''data'') ''message'' = Some msg
                  \<and> onError (callbacks w) = Some cb \<longrightarrow>
              (\<exists>more. calls (step env (SockMessage s (Parsed (JObj kvs))) w)
                         = calls w
                           @ (callee cb, ErrorMsg (or_else msg (JStr ''Unknown error''))) # more)"
    by (simp add: m handleMessage_tagged invoke_first_call del: step.simps)
  have e: "\<forall>cb. map_of kvs ''type'' = Some (JStr ''step_complete'')
                  \<and> onStepComplete (callbacks w) = Some cb \<and> does cb = [] \<longrightarrow>
              calls (step env (SockMessage s (Parsed (JObj kvs))) w)
                = calls w @ [(callee cb, Step (map_of kvs ''data''))]"
    by (auto simp: m handleMessage_tagged invoke_def Let_def simp del: step.simps)
  from a b c d e show ?thesis by blast
qed

theorem routing_ignores_execution_id_witness:
  "ready open_world 0 = Some OPEN
   \<and> executionId open_world = Some ''exec-42''
   \<and> map_of [(''type'', JStr ''step_complete''), (''execution_id'', JStr ''A''),
             (''data'', step_data)] ''execution_id'' = Some (JStr ''A'')
   \<and> ''exec-42'' \<noteq> ''A''
   \<and> onStepComplete (callbacks open_world) = Some \<lparr>callee = 1, does = [], throws = False\<rparr>
   \<and> step example_env (SockMessage 0 (Parsed step_frame)) open_world
       = step example_env
           (SockMessage 0
              (Parsed (JObj [(''type'', JStr ''step_complete''),
                             (''execution_id'', JStr ''exec-42''), (''data'', step_data)])))
           open_world
   \<and> calls (step example_env (SockMessage 0 (Parsed step_frame)) open_world)
       = calls open_world @ [(1, Step (Some step_data))]"
proof -
  let ?kvs = "[(''type'', JStr ''step_complete''), (''execution_id'', JStr ''A''),
               (''data'', step_data)]"
  let ?kvs' = "[(''type'', JStr ''step_complete''), (''execution_id'', JStr ''exec-42''),
                (''data'', step_data)]"
  have h1: "ready open_world 0 = Some OPEN"
    and h2: "executionId open_world = Some ''exec-42''"
    and cb: "onStepComplete (callbacks open_world)
               = Some \<lparr>callee = 1, does = [], throws = False\<rparr>"
    by (simp_all add: open_world_value ready_def callbacks_A_def plain_def)
  have h3: "map_of ?kvs ''execution_id'' = Some (JStr ''A'')"
    and h4: "''exec-42'' \<noteq> ''A''"
    and h5: "map_of ?kvs' ''execution_id'' = Some (JStr ''exec-42'')"
    and h6: "map_of ?kvs' ''type'' = map_of ?kvs ''type''"
    and h7: "map_of ?kvs' ''data'' = map_of ?kvs ''data''"
    and ty: "map_of ?kvs ''type'' = Some (JStr ''step_complete'')"
    and d: "map_of ?kvs ''data'' = Some step_data"
    by simp_all
  note t = routing_ignores_execution_id [where w = open_world and s = 0 and env = example_env,
      OF h1 h2 h3 h4 h5 h6 h7, folded step_frame_def]
  from t have c1: "step example_env (SockMessage 0 (Parsed step_frame)) open_world
       = step example_env (SockMessage 0 (Parsed (JObj ?kvs'))) open_world"
    by (rule conjunct1)
  from t [THEN conjunct2] cb ty d have c2: "calls (step example_env (SockMessage 0 (Parsed step_frame)) open_world)
       = calls open_world @ [(1, Step (Some step_data))]"
    by (simp del: step.simps)
  from h1 h2 h3 h4 cb c1 c2 show ?thesis by blast
qed

section \<open>Properties of the request client\<close>

subsection \<open>Timeout\<close>

text \<open>
  C2, as stated, does not hold: the timer is cleared as soon as \<^verbatim>\<open>fetch\<close> resolves, before
  the body is read. A call whose response arrives after 100 ms and whose body takes a
  further minute lasts longer than the 30000 ms timeout, yet it is never aborted and
  resolves with the parsed body.
\<close>

theorem slow_body_not_timed_out:
  "timeout (apiClient ''http://localhost:8000'') < call_duration slow_body
   \<and> request example_runtime (apiClient ''http://localhost:8000'') slow_body
       = \<lparr>outcome = Inr (JObj []), aborts = 0, finished_at = 60100\<rparr>"
  by (simp add: client_defs slow_body_def)

text \<open>
  C2, amended. For every call whose \<^verbatim>\<open>fetch\<close> has not settled when the configured timeout
  (30000 ms by default) expires, the transport call is aborted exactly once and the call
  fails with an \<^verbatim>\<open>ApiRequestError\<close> of status 408. A call whose \<^verbatim>\<open>fetch\<close> settles within
  the timeout is never aborted, however long reading its body takes.
\<close>

theorem timeout_aborts_once:
  "(timeout c < settle_time net \<longrightarrow>
      request rt c net
        = \<lparr>outcome = Inl (ApiRequestError ''Request timeout'' 408 None), aborts = 1,
           finished_at = timeout c\<rparr>)
   \<and> (settle_time net' \<le> timeout c \<longrightarrow> aborts (request rt c net') = 0)
   \<and> timeout (apiClient base) = 30000"
  by (simp add: request_def catch_block_def AbortError_def apiClient_def TIMEOUT_def
        split: sum.splits)

theorem timeout_aborts_once_witness:
  "timeout (apiClient ''http://localhost:8000'') < settle_time never_answered
   \<and> settle_time slow_body \<le> timeout (apiClient ''http://localhost:8000'')
   \<and> request example_runtime (apiClient ''http://localhost:8000'') never_answered
       = \<lparr>outcome = Inl (ApiRequestError ''Request timeout'' 408 None), aborts = 1,
          finished_at = 30000\<rparr>
   \<and> aborts (request example_runtime (apiClient ''http://localhost:8000'') slow_body) = 0"
proof -
  have h1: "timeout (apiClient ''http://localhost:8000'') < settle_time never_answered"
    and h2: "settle_time slow_body \<le> timeout (apiClient ''http://localhost:8000'')"
    and t: "timeout (apiClient ''http://localhost:8000'') = 30000"
    by (simp_all add: apiClient_def TIMEOUT_def never_answered_def slow_body_def)
  from timeout_aborts_once [of "apiClient ''http://localhost:8000''" never_answered
      example_runtime slow_body "''http://localhost:8000''"] h1 h2 t
  show ?thesis by simp
qed

subsection \<open>HTTP errors\<close>

text \<open>
  C3, as stated, does not hold: when the body of a non-2xx response cannot be parsed, the
  failure's message is the fixed text \<^verbatim>\<open>'Request failed'\<close>; the status text of the response
  goes into the \<^verbatim>\<open>detail\<close> field of the failure's payload, not into its message. Nor does
  every non-2xx response fail with its own status: a response with status 500 whose body
  is the JSON value \<^verbatim>\<open>null\<close> fails with status 0.
\<close>

theorem unparsed_error_message_is_generic:
  "outcome (request example_runtime (apiClient ''http://localhost:8000'') server_error)
     = Inl (ApiRequestError ''Request failed'' 500
              (Some (JObj [(''error'', JStr ''Request failed''),
                           (''detail'', JStr ''Internal Server Error'')])))
   \<and> statusText html_500 = ''Internal Server Error''
   \<and> ''Request failed'' \<noteq> statusText html_500
   \<and> \<not> ok null_500 \<and> http_status null_500 = 500
   \<and> outcome (request example_runtime (apiClient ''http://localhost:8000'') null_error)
       = Inl (ApiRequestError ''Cannot read properties of null'' 0 None)"
  by (simp add: client_defs server_error_def html_500_def null_error_def null_500_def)

text \<open>
  C3, amended. For a response with a non-2xx status the client takes as payload the parsed
  body, or \<^verbatim>\<open>{error: 'Request failed', detail: <status text>}\<close> when the body cannot be
  parsed, and as message the payload's \<^verbatim>\<open>error\<close> field, or \<^verbatim>\<open>'Request failed'\<close> when that
  field is absent or falsy. Whenever the payload is not \<^verbatim>\<open>null\<close> and the message has a
  string form, the call fails with an \<^verbatim>\<open>ApiRequestError\<close> that carries this message, the
  HTTP status code of the response and the payload. In particular: a body that cannot be
  parsed gives the message \<^verbatim>\<open>'Request failed'\<close>, with the status text in the payload's
  \<^verbatim>\<open>detail\<close>; a payload object whose \<^verbatim>\<open>error\<close> is a non-empty string gives that string; a
  payload object without a truthy \<^verbatim>\<open>error\<close> gives \<^verbatim>\<open>'Request failed'\<close>. A payload that is
  \<^verbatim>\<open>null\<close> fails with status 0 instead, and so does a message without a string form
  (unless the error thrown by the conversion is named \<^verbatim>\<open>AbortError\<close>).
\<close>

theorem http_error_status:
  assumes "settle_time net \<le> timeout c" and "fetch_result net = Inr r" and "\<not> ok r"
  shows "(\<forall>p msg. read_error rt (error_payload rt r) = Inr p
                  \<and> String_of rt (or_else p (JStr ''Request failed'')) = Inr msg \<longrightarrow>
            outcome (request rt c net)
              = Inl (ApiRequestError msg (http_status r) (Some (error_payload rt r))))
         \<and> (unparsable rt r \<longrightarrow>
              outcome (request rt c net)
                = Inl (ApiRequestError ''Request failed'' (http_status r)
                         (Some (JObj [(''error'', JStr ''Request failed''),
                                      (''detail'', JStr (statusText r))]))))
         \<and> (\<forall>kvs m. error_payload rt r = JObj kvs \<and> map_of kvs ''error'' = Some (JStr m)
                      \<and> m \<noteq> [] \<longrightarrow>
              outcome (request rt c net)
                = Inl (ApiRequestError m (http_status r) (Some (JObj kvs))))
         \<and> (\<forall>kvs. error_payload rt r = JObj kvs \<and> \<not> truthy (map_of kvs ''error'') \<longrightarrow>
              outcome (request rt c net)
                = Inl (ApiRequestError ''Request failed'' (http_status r) (Some (JObj kvs))))
         \<and> (error_payload rt r = JNull \<longrightarrow>
              outcome (request rt c net) = Inl (ApiRequestError (null_read_message rt) 0 None))
         \<and> (\<forall>p name m. read_error rt (error_payload rt r) = Inr p
                  \<and> String_of rt (or_else p (JStr ''Request failed'')) = Inl (ErrorObject name m)
                  \<and> name \<noteq> ''AbortError'' \<longrightarrow>
              outcome (request rt c net) = Inl (ApiRequestError m 0 None))"
proof -
  note o = request_error_response [OF assms, of rt]
  have a: "\<forall>p msg. read_error rt (error_payload rt r) = Inr p
                  \<and> String_of rt (or_else p (JStr ''Request failed'')) = Inr msg \<longrightarrow>
            outcome (request rt c net)
              = Inl (ApiRequestError msg (http_status r) (Some (error_payload rt r)))"
    by (simp add: o catch_block_def)
  have b: "unparsable rt r \<longrightarrow>
              outcome (request rt c net)
                = Inl (ApiRequestError ''Request failed'' (http_status r)
                         (Some (JObj [(''error'', JStr ''Request failed''),
                                      (''detail'', JStr (statusText r))])))"
    by (simp add: o error_payload_unparsable read_error_def or_else_def String_of_def
          catch_block_def)
  have c: "\<forall>kvs m. error_payload rt r = JObj kvs \<and> map_of kvs ''error'' = Some (JStr m)
                      \<and> m \<noteq> [] \<longrightarrow>
              outcome (request rt c net)
                = Inl (ApiRequestError m (http_status r) (Some (JObj kvs)))"
    by (simp add: o read_error_def or_else_def String_of_def catch_block_def)
  have d: "\<forall>kvs. error_payload rt r = JObj kvs \<and> \<not> truthy (map_of kvs ''error'') \<longrightarrow>
              outcome (request rt c net)
                = Inl (ApiRequestError ''Request failed'' (http_status r) (Some (JObj kvs)))"
    by (auto simp: o read_error_def or_else_def String_of_def catch_block_def
          split: option.splits)
  have e: "error_payload rt r = JNull \<longrightarrow>
              outcome (request rt c net) = Inl (ApiRequestError (null_read_message rt) 0 None)"
    by (simp add: o read_error_def catch_block_def)
  have f: "\<forall>p name m. read_error rt (error_payload rt r) = Inr p
                  \<and> String_of rt (or_else p (JStr ''Request failed'')) = Inl (ErrorObject name m)
                  \<and> name \<noteq> ''AbortError'' \<longrightarrow>
              outcome (request rt c net) = Inl (ApiRequestError m 0 None)"
    by (simp add: o catch_block_def)
  from a b c d e f show ?thesis by blast
qed

theorem http_error_status_witness:
  "settle_time server_error \<le> timeout (apiClient ''http://localhost:8000'')
   \<and> fetch_result server_error = Inr html_500
   \<and> \<not> ok html_500
   \<and> unparsable example_runtime html_500
   \<and> outcome (request example_runtime (apiClient ''http://localhost:8000'') server_error)
       = Inl (ApiRequestError ''Request failed'' 500
                (Some (JObj [(''error'', JStr ''Request failed''),
                             (''detail'', JStr ''Internal Server Error'')])))
   \<and> settle_time not_found \<le> timeout (apiClient ''http://localhost:8000'')
   \<and> fetch_result not_found = Inr not_found_404
   \<and> \<not> ok not_found_404
   \<and> error_payload example_runtime not_found_404 = JObj [(''error'', JStr ''Not found'')]
   \<and> outcome (request example_runtime (apiClient ''http://localhost:8000'') not_found)
       = Inl (ApiRequestError ''Not found'' 404 (Some (JObj [(''error'', JStr ''Not found'')])))
   \<and> settle_time odd_error \<le> timeout (apiClient ''http://localhost:8000'')
   \<and> fetch_result odd_error = Inr odd_422
   \<and> \<not> ok odd_422
   \<and> read_error example_runtime (error_payload example_runtime odd_422)
       = Inr (Some (JObj [(''toString'', JNull)]))
   \<and> String_of example_runtime
       (or_else (Some (JObj [(''toString'', JNull)])) (JStr ''Request failed''))
       = Inl (ErrorObject ''TypeError'' ''Cannot convert object to primitive value'')
   \<and> outcome (request example_runtime (apiClient ''http://localhost:8000'') odd_error)
       = Inl (ApiRequestError ''Cannot convert object to primitive value'' 0 None)"
proof -
  have h1: "settle_time server_error \<le> timeout (apiClient ''http://localhost:8000'')"
    and h2: "fetch_result server_error = Inr html_500"
    and h3: "\<not> ok html_500"
    by (simp_all add: server_error_def html_500_def apiClient_def TIMEOUT_def ok_def)
  have u: "unparsable example_runtime html_500"
    by (simp add: unparsable_def html_500_def example_runtime_def)
  have f: "http_status html_500 = 500" "statusText html_500 = ''Internal Server Error''"
    by (simp_all add: html_500_def)
  from http_error_status [OF h1 h2 h3, of example_runtime] u f
  have c1: "outcome (request example_runtime (apiClient ''http://localhost:8000'') server_error)
       = Inl (ApiRequestError ''Request failed'' 500
                (Some (JObj [(''error'', JStr ''Request failed''),
                             (''detail'', JStr ''Internal Server Error'')])))"
    by simp
  have k1: "settle_time not_found \<le> timeout (apiClient ''http://localhost:8000'')"
    and k2: "fetch_result not_found = Inr not_found_404"
    and k3: "\<not> ok not_found_404"
    and k4: "http_status not_found_404 = 404"
    by (simp_all add: not_found_def not_found_404_def apiClient_def TIMEOUT_def ok_def)
  have p: "error_payload example_runtime not_found_404 = JObj [(''error'', JStr ''Not found'')]"
    by (simp add: error_payload_def not_found_404_def example_runtime_def)
  from http_error_status [OF k1 k2 k3, of example_runtime] p k4
  have c2: "outcome (request example_runtime (apiClient ''http://localhost:8000'') not_found)
       = Inl (ApiRequestError ''Not found'' 404 (Some (JObj [(''error'', JStr ''Not found'')])))"
    by simp
  have o1: "settle_time odd_error \<le> timeout (apiClient ''http://localhost:8000'')"
    and o2: "fetch_result odd_error = Inr odd_422"
    and o3: "\<not> ok odd_422"
    by (simp_all add: odd_error_def odd_422_def apiClient_def TIMEOUT_def ok_def)
  have o4: "read_error example_runtime (error_payload example_runtime odd_422)
       = Inr (Some (JObj [(''toString'', JNull)]))"
    by (simp add: read_error_def error_payload_def odd_422_def example_runtime_def)
  have o5: "String_of example_runtime
       (or_else (Some (JObj [(''toString'', JNull)])) (JStr ''Request failed''))
       = Inl (ErrorObject ''TypeError'' ''Cannot convert object to primitive value'')"
    by (simp add: String_of_def or_else_def example_runtime_def)
  from http_error_status [OF o1 o2 o3, of example_runtime] o4 o5
  have c3: "outcome (request example_runtime (apiClient ''http://localhost:8000'') odd_error)
       = Inl (ApiRequestError ''Cannot convert object to primitive value'' 0 None)"
    by simp
  from h1 h2 h3 u c1 k1 k2 k3 p c2 o1 o2 o3 o4 o5 c3 show ?thesis by blast
qed

subsection \<open>Transport failures\<close>

text \<open>
  C4, as stated, does not hold: the client tells a timeout from other failures by the
  error's name alone. A \<^verbatim>\<open>fetch\<close> rejected with an \<^verbatim>\<open>AbortError\<close> after 5 ms, long before the
  timer is due and without the client having called \<^verbatim>\<open>abort\<close>, fails with status 408, not 0.
\<close>

theorem foreign_abort_reported_as_timeout:
  "settle_time foreign_abort \<le> timeout (apiClient ''http://localhost:8000'')
   \<and> request example_runtime (apiClient ''http://localhost:8000'') foreign_abort
       = \<lparr>outcome = Inl (ApiRequestError ''Request timeout'' 408 None), aborts = 0,
          finished_at = 5\<rparr>"
  by (simp add: client_defs foreign_abort_def)

text \<open>
  C4, amended. For every transport-level failure in which no HTTP response is obtained and
  the value \<^verbatim>\<open>fetch\<close> rejects with is not an error named \<^verbatim>\<open>AbortError\<close> (a DNS failure, a
  refused connection), the call fails with an \<^verbatim>\<open>ApiRequestError\<close> whose status is 0 and
  whose message is the error's message, or \<^verbatim>\<open>'Network error'\<close> when the value is not an
  \<^verbatim>\<open>Error\<close>. A rejection named \<^verbatim>\<open>AbortError\<close> is reported with status 408 whatever caused it.
\<close>

theorem transport_failure_status:
  assumes "settle_time net \<le> timeout c" and "fetch_result net = Inl e"
  shows "(thrown_name e \<noteq> Some ''AbortError'' \<longrightarrow>
            request rt c net
              = \<lparr>outcome = Inl (ApiRequestError (thrown_message e) 0 None), aborts = 0,
                 finished_at = settle_time net\<rparr>)
         \<and> (thrown_name e = Some ''AbortError'' \<longrightarrow>
              outcome (request rt c net) = Inl (ApiRequestError ''Request timeout'' 408 None))"
  using assms
  by (cases e) (simp_all add: request_def catch_block_def thrown_name_def thrown_message_def)

theorem transport_failure_status_witness:
  "settle_time connection_refused \<le> timeout (apiClient ''http://localhost:8000'')
   \<and> fetch_result connection_refused = Inl (ErrorObject ''TypeError'' ''Failed to fetch'')
   \<and> thrown_name (ErrorObject ''TypeError'' ''Failed to fetch'') \<noteq> Some ''AbortError''
   \<and> request example_runtime (apiClient ''http://localhost:8000'') connection_refused
       = \<lparr>outcome = Inl (ApiRequestError ''Failed to fetch'' 0 None), aborts = 0,
          finished_at = 7\<rparr>"
proof -
  have h1: "settle_time connection_refused \<le> timeout (apiClient ''http://localhost:8000'')"
    and h2: "fetch_result connection_refused = Inl (ErrorObject ''TypeError'' ''Failed to fetch'')"
    and s: "settle_time connection_refused = 7"
    by (simp_all add: connection_refused_def apiClient_def TIMEOUT_def)
  have n: "thrown_name (ErrorObject ''TypeError'' ''Failed to fetch'') \<noteq> Some ''AbortError''"
    and m: "thrown_message (ErrorObject ''TypeError'' ''Failed to fetch'') = ''Failed to fetch''"
    by (simp_all add: thrown_name_def thrown_message_def)
  from transport_failure_status [OF h1 h2, of example_runtime] n m s
  have "request example_runtime (apiClient ''http://localhost:8000'') connection_refused
       = \<lparr>outcome = Inl (ApiRequestError ''Failed to fetch'' 0 None), aborts = 0,
          finished_at = 7\<rparr>"
    by simp
  with h1 h2 n show ?thesis by blast
qed

subsection \<open>Empty bodies\<close>

text \<open>
  C9. For every 2xx response whose body is empty, the call succeeds and resolves with the
  empty object; an empty body is never turned into a failure.
\<close>

theorem empty_body_is_success:
  assumes "settle_time net \<le> timeout c" and "fetch_result net = Inr r" and "ok r"
    and "body r = Inr []"
  shows "outcome (request rt c net) = Inr (JObj []) \<and> aborts (request rt c net) = 0"
  using assms by (simp add: request_def after_fetch_def catch_block_def)

theorem empty_body_is_success_witness:
  "settle_time deleted \<le> timeout (apiClient ''http://localhost:8000'')
   \<and> fetch_result deleted = Inr no_content \<and> ok no_content \<and> body no_content = Inr []
   \<and> outcome (request example_runtime (apiClient ''http://localhost:8000'') deleted)
       = Inr (JObj [])"
proof -
  have h1: "settle_time deleted \<le> timeout (apiClient ''http://localhost:8000'')"
    and h2: "fetch_result deleted = Inr no_content"
    and h3: "ok no_content"
    and h4: "body no_content = Inr []"
    by (simp_all add: deleted_def no_content_def apiClient_def TIMEOUT_def ok_def)
  from empty_body_is_success [OF h1 h2 h3 h4, of example_runtime] h1 h2 h3 h4
  show ?thesis by blast
qed

end
